theory Spec2Isabelle
  imports Complex_Main
begin

section \<open>Python values, types and errors\<close>

text \<open>
  The types that occur in a field's \<open>types\<close> tuple or a list field's \<open>items_types\<close>.
  A model class is identified by its name and carries its field registry, the pairs
  (attribute name, wire-name override) that \<open>iterate_with_name\<close> enumerates.
  \<open>TLazy\<close> is a \<open>_LazyType\<close> placeholder still waiting for resolution and \<open>TAnyFn\<close>
  is the builtin function \<open>any\<close> (the entry of \<open>GenericField.types\<close>): both sit in type
  tuples without being classes.
\<close>

datatype pytype =
    TObject | TStr | TInt | TFloat | TBool | TList | TTuple | TDict
  | TTime | TDate | TDateTime
  | TModel string "(string \<times> string option) list"
  | TLazy string
  | TAnyFn

text \<open>
  Floats are the finite values (rationals here: every finite float is one), the two
  infinities (\<open>FInf True\<close> is the positive one) and NaN.
\<close>

datatype pyfloat = Finite rat | FInf bool | NaN

text \<open>Dates and times of day. \<open>tzinfo\<close> is not modelled: every time is naive.\<close>

datatype pydate = Date (year: nat) (month: nat) (day: nat)

datatype pytime = Time (hour: nat) (minute: nat) (second: nat) (microsecond: nat)

text \<open>
  Values. A dict is its list of items in insertion order; a model instance is its class
  and its attribute values. Strings are ASCII text.
\<close>

datatype pyval =
    PNone
  | PBool bool
  | PInt int
  | PFloat pyfloat
  | PStr string
  | PList "pyval list"
  | PTuple "pyval list"
  | PDict "(pyval \<times> pyval) list"
  | PTime pytime
  | PDate pydate
  | PDateTime pydate pytime
  | PObj pytype "(string \<times> pyval) list"

text \<open>
  Exceptions: Python's own, the three of \<open>jsonmodels.errors\<close> that fields.py raises
  with their operands (\<open>BadTypeError(value, types, is_list)\<close>,
  \<open>AmbiguousTypeError(types)\<close>), those of the validators modelled below, and
  \<open>OtherError\<close> for whatever a user's validator raises.
\<close>

datatype error =
    ValueError | TypeError | IndexError | KeyError | AttributeError | OverflowError
  | ImportError
  | RequiredFieldError
  | BadTypeError pyval "pytype list option" bool
  | AmbiguousTypeError "pytype list"
  | MinValidationError pyval int bool
  | MaxValidationError pyval int bool
  | MinLengthError pyval nat
  | MaxLengthError pyval nat
  | OtherError string

type_synonym 'a result = "error + 'a"

subsection \<open>Builtins\<close>

text \<open>
  \<open>isinstance(value, cls)\<close> for one class: \<open>bool\<close> is a subclass of \<open>int\<close>,
  \<open>datetime\<close> a subclass of \<open>date\<close>, everything is an \<open>object\<close>, and a model instance
  belongs to its own model class (model classes do not inherit from each other here).
\<close>

definition instance_of :: "pyval \<Rightarrow> pytype \<Rightarrow> bool" where
  "instance_of v t =
     (t = TObject \<or>
      (case v of
         PNone \<Rightarrow> False
       | PBool _ \<Rightarrow> t = TBool \<or> t = TInt
       | PInt _ \<Rightarrow> t = TInt
       | PFloat _ \<Rightarrow> t = TFloat
       | PStr _ \<Rightarrow> t = TStr
       | PList _ \<Rightarrow> t = TList
       | PTuple _ \<Rightarrow> t = TTuple
       | PDict _ \<Rightarrow> t = TDict
       | PTime _ \<Rightarrow> t = TTime
       | PDate _ \<Rightarrow> t = TDate
       | PDateTime _ _ \<Rightarrow> t = TDateTime \<or> t = TDate
       | PObj c _ \<Rightarrow> (case c of TModel _ _ \<Rightarrow> t = c | _ \<Rightarrow> False)))"

definition is_class :: "pytype \<Rightarrow> bool" where
  "is_class t = (case t of TLazy _ \<Rightarrow> False | TAnyFn \<Rightarrow> False | _ \<Rightarrow> True)"

text \<open>
  \<open>isinstance(value, types)\<close> for a tuple: the entries are tried in order, the first
  match answers \<open>True\<close>, and an entry that is not a class raises \<open>TypeError\<close> when it
  is reached.
\<close>

fun isinstance :: "pyval \<Rightarrow> pytype list \<Rightarrow> bool result" where
  "isinstance v [] = Inr False"
| "isinstance v (t # ts) =
     (if \<not> is_class t then Inl TypeError
      else if instance_of v t then Inr True
      else isinstance v ts)"

text \<open>Truth value of a value (\<open>if value:\<close>, \<open>not values\<close>, \<open>bool(value)\<close>).\<close>

fun truthy :: "pyval \<Rightarrow> bool" where
  "truthy PNone = False"
| "truthy (PBool b) = b"
| "truthy (PInt i) = (i \<noteq> 0)"
| "truthy (PFloat x) = (x \<noteq> Finite 0)"
| "truthy (PStr s) = (s \<noteq> [])"
| "truthy (PList xs) = (xs \<noteq> [])"
| "truthy (PTuple xs) = (xs \<noteq> [])"
| "truthy (PDict kvs) = (kvs \<noteq> [])"
| "truthy (PTime _) = True"
| "truthy (PDate _) = True"
| "truthy (PDateTime _ _) = True"
| "truthy (PObj _ _) = True"

text \<open>
  \<open>int(x)\<close>. A string is stripped of surrounding whitespace (tab, line feed, vertical
  tab, form feed, carriage return and space) and read as an optional sign and decimal
  digits, single underscores allowed between digits; anything else is a \<open>ValueError\<close>,
  and so is a string of more than 4300 digits. A float is truncated towards zero, NaN
  is a \<open>ValueError\<close> and an infinity an \<open>OverflowError\<close>. A value with no integer
  conversion is a \<open>TypeError\<close>.
\<close>

definition is_space :: "char \<Rightarrow> bool" where
  "is_space c = (of_char c \<in> {9, 10, 11, 12, 13, 32 :: nat})"

definition strip :: "string \<Rightarrow> string" where
  "strip s = rev (dropWhile is_space (rev (dropWhile is_space s)))"

definition is_digit :: "char \<Rightarrow> bool" where
  "is_digit c = (48 \<le> (of_char c :: nat) \<and> (of_char c :: nat) \<le> 57)"

definition digit_val :: "char \<Rightarrow> int" where
  "digit_val c = int (of_char c) - 48"

fun dec_digits :: "string \<Rightarrow> bool \<Rightarrow> int \<Rightarrow> int option" where
  "dec_digits [] prev acc = (if prev then Some acc else None)"
| "dec_digits (c # cs) prev acc =
     (if is_digit c then dec_digits cs True (10 * acc + digit_val c)
      else if c = CHR ''_'' \<and> prev \<and> cs \<noteq> [] then dec_digits cs False acc
      else None)"

definition max_str_digits :: nat where
  "max_str_digits = 4300"

definition int_of_string :: "string \<Rightarrow> int option" where
  "int_of_string s =
     (if length (filter is_digit s) > max_str_digits then None
      else
        (case strip s of
           [] \<Rightarrow> None
         | c # cs \<Rightarrow>
             if c = CHR ''-'' then map_option uminus (dec_digits cs False 0)
             else if c = CHR ''+'' then dec_digits cs False 0
             else dec_digits (c # cs) False 0))"

definition trunc_rat :: "rat \<Rightarrow> int" where
  "trunc_rat r = (if 0 \<le> r then \<lfloor>r\<rfloor> else - \<lfloor>- r\<rfloor>)"

definition float_int :: "pyfloat \<Rightarrow> int result" where
  "float_int x =
     (case x of Finite r \<Rightarrow> Inr (trunc_rat r) | NaN \<Rightarrow> Inl ValueError
      | FInf _ \<Rightarrow> Inl OverflowError)"

definition py_int :: "pyval \<Rightarrow> int result" where
  "py_int v =
     (case v of
        PBool b \<Rightarrow> Inr (if b then 1 else 0)
      | PInt i \<Rightarrow> Inr i
      | PFloat x \<Rightarrow> float_int x
      | PStr s \<Rightarrow> (case int_of_string s of None \<Rightarrow> Inl ValueError | Some i \<Rightarrow> Inr i)
      | _ \<Rightarrow> Inl TypeError)"

text \<open>
  \<open>==\<close> on values. Numbers compare by value across \<open>bool\<close>, \<open>int\<close> and \<open>float\<close>, and
  NaN equals nothing, itself included. A \<open>date\<close> never equals a \<open>datetime\<close>. Other
  values are equal when they are written the same.
\<close>

definition is_number :: "pyval \<Rightarrow> bool" where
  "is_number v = (case v of PBool _ \<Rightarrow> True | PInt _ \<Rightarrow> True | PFloat _ \<Rightarrow> True | _ \<Rightarrow> False)"

definition num_of :: "pyval \<Rightarrow> rat option" where
  "num_of v =
     (case v of
        PBool b \<Rightarrow> Some (if b then 1 else 0)
      | PInt i \<Rightarrow> Some (of_int i)
      | PFloat (Finite r) \<Rightarrow> Some r
      | _ \<Rightarrow> None)"

definition py_eq :: "pyval \<Rightarrow> pyval \<Rightarrow> bool" where
  "py_eq a b =
     (if is_number a \<and> is_number b then
        (case (num_of a, num_of b) of
           (Some x, Some y) \<Rightarrow> x = y
         | _ \<Rightarrow> a = b \<and> a \<noteq> PFloat NaN)
      else a = b)"

text \<open>\<open>iter(value)\<close> for the builtin kinds; a model instance is left to the environment.\<close>

fun py_iter :: "pyval \<Rightarrow> pyval list result" where
  "py_iter (PList xs) = Inr xs"
| "py_iter (PTuple xs) = Inr xs"
| "py_iter (PStr s) = Inr (map (\<lambda>c. PStr [c]) s)"
| "py_iter (PDict kvs) = Inr (map fst kvs)"
| "py_iter _ = Inl TypeError"

text \<open>
  \<open>dict(items)\<close>: a key already present keeps its place and takes the new value; a list
  or dict as key is unhashable.
\<close>

fun hashable :: "pyval \<Rightarrow> bool" where
  "hashable (PList _) = False"
| "hashable (PDict _) = False"
| "hashable (PTuple xs) = list_all hashable xs"
| "hashable _ = True"

fun dict_set :: "(pyval \<times> pyval) list \<Rightarrow> pyval \<Rightarrow> pyval \<Rightarrow> (pyval \<times> pyval) list" where
  "dict_set [] k v = [(k, v)]"
| "dict_set ((k', v') # kvs) k v =
     (if py_eq k' k then (k', v) # kvs else (k', v') # dict_set kvs k v)"

fun py_dict :: "(pyval \<times> pyval) list \<Rightarrow> (pyval \<times> pyval) list \<Rightarrow> pyval result" where
  "py_dict acc [] = Inr (PDict acc)"
| "py_dict acc ((k, v) # items) =
     (if hashable k then py_dict (dict_set acc k v) items else Inl TypeError)"

section \<open>Lazy type references (\<open>_get_modules\<close>, \<open>_evaluate_path\<close>, \<open>_import\<close>)\<close>

text \<open>\<open>str.lstrip('.')\<close>, \<open>str.startswith('.')\<close>, \<open>str.split('.')\<close> and \<open>'.'.join\<close>.\<close>

definition lstrip_dot :: "string \<Rightarrow> string" where
  "lstrip_dot s = dropWhile (\<lambda>c. c = CHR ''.'') s"

definition startswith_dot :: "string \<Rightarrow> bool" where
  "startswith_dot s = (case s of [] \<Rightarrow> False | c # _ \<Rightarrow> c = CHR ''.'')"

fun split_dot :: "string \<Rightarrow> string list" where
  "split_dot [] = [[]]"
| "split_dot (c # cs) =
     (if c = CHR ''.'' then [] # split_dot cs
      else (case split_dot cs of [] \<Rightarrow> [[c]] | w # ws \<Rightarrow> (c # w) # ws))"

fun join_dot :: "string list \<Rightarrow> string" where
  "join_dot [] = []"
| "join_dot [w] = w"
| "join_dot (w # ws) = w @ CHR ''.'' # join_dot ws"

text \<open>The slice \<open>xs[:k]\<close>: a negative \<open>k\<close> counts from the end, and \<open>k = 0\<close> is empty.\<close>

definition slice_to :: "'a list \<Rightarrow> int \<Rightarrow> 'a list" where
  "slice_to xs k = (if k < 0 then take (nat (int (length xs) + k)) xs else take (nat k) xs)"

text \<open>
  \<^verbatim>\<open>
  def _get_modules(relative_path, base_module):
      canonical_path = relative_path.lstrip('.')
      canonical_modules = canonical_path.split('.')
      if not relative_path.startswith('.'):
          return canonical_modules
      parents_amount = len(relative_path) - len(canonical_path)
      parent_modules = base_module.split('.')
      parents_amount = max(0, parents_amount - 1)
      if parents_amount > len(parent_modules):
          raise ValueError("Can't evaluate path '{}'".format(relative_path))
      return parent_modules[:parents_amount * -1] + canonical_modules
  \<close>
\<close>

definition get_modules :: "string \<Rightarrow> string \<Rightarrow> error + string list" where
  "get_modules relative_path base_module =
     (let canonical_path = lstrip_dot relative_path;
          canonical_modules = split_dot canonical_path
      in if \<not> startswith_dot relative_path then Inr canonical_modules
         else
           let parents_amount = int (length relative_path) - int (length canonical_path);
               parent_modules = split_dot base_module;
               parents_amount' = max 0 (parents_amount - 1)
           in if parents_amount' > int (length parent_modules) then Inl ValueError
              else Inr (slice_to parent_modules (parents_amount' * - 1) @ canonical_modules))"

text \<open>
  \<^verbatim>\<open>
  def _evaluate_path(relative_path, base_cls):
      base_module = base_cls.__module__
      modules = _get_modules(relative_path, base_module)
      type_name = modules.pop()
      module = '.'.join(modules)
      if not module:
          module = base_module
      return module, type_name
  \<close>
  The class enters only through its \<open>__module__\<close>. \<open>list.pop\<close> raises
  \<open>IndexError\<close> on an empty list.
\<close>

definition evaluate_path :: "string \<Rightarrow> string \<Rightarrow> error + string \<times> string" where
  "evaluate_path relative_path base_module =
     (case get_modules relative_path base_module of
        Inl e \<Rightarrow> Inl e
      | Inr modules \<Rightarrow>
          (if modules = [] then Inl IndexError
           else
             let type_name = last modules;
                 module_name = join_dot (butlast modules)
             in Inr (if module_name = [] then base_module else module_name, type_name)))"

text \<open>
  The resolution as the specification words it: \<open>n\<close> leading dots strip \<open>n - 1\<close>
  trailing segments of the declaring namespace (one dot is the namespace itself), the
  remaining segments are appended, and asking for more levels than there are segments
  is an error.
\<close>

definition leading_dots :: "string \<Rightarrow> nat" where
  "leading_dots s = length (takeWhile (\<lambda>c. c = CHR ''.'') s)"

definition spec_modules :: "string \<Rightarrow> string \<Rightarrow> error + string list" where
  "spec_modules relative_path base_module =
     (let n = leading_dots relative_path;
          rest = split_dot (lstrip_dot relative_path);
          base = split_dot base_module
      in if n = 0 then Inr rest
         else if n - 1 > length base then Inl ValueError
         else Inr (take (length base - (n - 1)) base @ rest))"

text \<open>
  What the field engine reaches outside fields.py: the import system (\<open>__import__\<close> and
  the attributes of a module), the call \<open>cls(**kwargs)\<close> that builds a model instance,
  the instance's own \<open>validate()\<close>, \<open>to_struct()\<close> and iteration, the parser of
  \<open>dateutil\<close> (which returns a \<open>datetime\<close> or raises), and the renderings
  \<open>value.isoformat()\<close> and \<open>value.strftime(format)\<close> of the standard library.
\<close>

record ext =
  sys_modules :: "string \<Rightarrow> (string \<Rightarrow> pytype option) option"
  construct :: "pytype \<Rightarrow> (pyval \<times> pyval) list \<Rightarrow> pyval result"
  obj_validate :: "pyval \<Rightarrow> unit result"
  obj_to_struct :: "pyval \<Rightarrow> pyval result"
  obj_iter :: "pyval \<Rightarrow> pyval list result"
  du_parse :: "pyval \<Rightarrow> (pydate \<times> pytime) result"
  isoformat :: "pyval \<Rightarrow> string"
  strftime :: "pyval \<Rightarrow> string \<Rightarrow> string"

text \<open>
  \<^verbatim>\<open>
  def _import(module_name, type_name):
      module = __import__(module_name, fromlist=[type_name])
      try:
          return getattr(module, type_name)
      except AttributeError:
          raise ValueError("Can't find type '{}.{}'.".format(module_name, type_name))
  \<close>
\<close>

definition import_py :: "ext \<Rightarrow> string \<Rightarrow> string \<Rightarrow> pytype result" where
  "import_py x module_name type_name =
     (case sys_modules x module_name of
        None \<Rightarrow> Inl ImportError
      | Some attrs \<Rightarrow>
          (case attrs type_name of None \<Rightarrow> Inl ValueError | Some t \<Rightarrow> Inr t))"

text \<open>\<open>_LazyType.evaluate(base_cls)\<close>, the class given by its \<open>__module__\<close>.\<close>

definition evaluate :: "ext \<Rightarrow> string \<Rightarrow> string \<Rightarrow> pytype result" where
  "evaluate x path base_module =
     (case evaluate_path path base_module of
        Inl e \<Rightarrow> Inl e
      | Inr (module_name, type_name) \<Rightarrow> import_py x module_name type_name)"

text \<open>
  The loop shared by \<open>ListField._finish_initialization\<close> and
  \<open>EmbeddedField._finish_initialization\<close>: every \<open>_LazyType\<close> of the tuple is evaluated,
  the other entries are kept, and the first failure aborts the loop.
\<close>

fun resolve_types :: "ext \<Rightarrow> string \<Rightarrow> pytype list \<Rightarrow> pytype list result" where
  "resolve_types x owner [] = Inr []"
| "resolve_types x owner (t # ts) =
     (case (case t of TLazy path \<Rightarrow> evaluate x path owner | _ \<Rightarrow> Inr t) of
        Inl e \<Rightarrow> Inl e
      | Inr t' \<Rightarrow>
          (case resolve_types x owner ts of Inl e \<Rightarrow> Inl e | Inr ts' \<Rightarrow> Inr (t' # ts')))"

section \<open>Validators (validators.py)\<close>

text \<open>
  A validator is any object: the field engine calls its \<open>validate\<close> method when it has
  one and the object itself otherwise. \<open>validate_m\<close> is the method and \<open>call_m\<close> the
  object's \<open>__call__\<close>, each absent or present.
\<close>

datatype validator =
  Validator (validate_m: "(pyval \<Rightarrow> unit result) option")
            (call_m: "(pyval \<Rightarrow> unit result) option")

text \<open>
  \<^verbatim>\<open>
  try:
      validator.validate(value)
  except AttributeError:
      validator(value)
  \<close>
  The \<open>AttributeError\<close> is that of a missing method or one raised inside it; calling an
  object that is not callable is a \<open>TypeError\<close>.
\<close>

definition call_validator :: "validator \<Rightarrow> pyval \<Rightarrow> unit result" where
  "call_validator v value = (case call_m v of None \<Rightarrow> Inl TypeError | Some g \<Rightarrow> g value)"

definition run_validator :: "validator \<Rightarrow> pyval \<Rightarrow> unit result" where
  "run_validator v value =
     (case validate_m v of
        None \<Rightarrow> call_validator v value
      | Some f \<Rightarrow>
          (if f value = Inl AttributeError then call_validator v value else f value))"

text \<open>\<open>for validator in validators: ...\<close>: in list order, stopping at the first error.\<close>

fun run_validators :: "validator list \<Rightarrow> pyval \<Rightarrow> unit result" where
  "run_validators [] value = Inr ()"
| "run_validators (v # vs) value =
     (case run_validator v value of Inl e \<Rightarrow> Inl e | Inr _ \<Rightarrow> run_validators vs value)"

text \<open>
  \<open>value < bound\<close> and \<open>value > bound\<close> for an integer bound: numbers compare by value,
  NaN is below and above nothing, and any other value raises \<open>TypeError\<close>.
\<close>

definition py_lt_int :: "pyval \<Rightarrow> int \<Rightarrow> bool result" where
  "py_lt_int v m =
     (case v of
        PBool b \<Rightarrow> Inr ((if b then 1 else 0) < m)
      | PInt i \<Rightarrow> Inr (i < m)
      | PFloat x \<Rightarrow>
          Inr (case x of Finite r \<Rightarrow> r < of_int m | FInf pos \<Rightarrow> \<not> pos | NaN \<Rightarrow> False)
      | _ \<Rightarrow> Inl TypeError)"

definition py_gt_int :: "pyval \<Rightarrow> int \<Rightarrow> bool result" where
  "py_gt_int v m =
     (case v of
        PBool b \<Rightarrow> Inr ((if b then 1 else 0) > m)
      | PInt i \<Rightarrow> Inr (i > m)
      | PFloat x \<Rightarrow>
          Inr (case x of Finite r \<Rightarrow> r > of_int m | FInf pos \<Rightarrow> pos | NaN \<Rightarrow> False)
      | _ \<Rightarrow> Inl TypeError)"

text \<open>
  \<^verbatim>\<open>
  class Min:
      def validate(self, value):
          if value < self.minimum_value \
                  or (self.exclusive and value == self.minimum_value):
              raise MinValidationError(value, self.minimum_value, self.exclusive)
  \<close>
  and \<open>Max\<close> alike, for integer bounds.
\<close>

definition Min_validate :: "int \<Rightarrow> bool \<Rightarrow> pyval \<Rightarrow> unit result" where
  "Min_validate minimum_value exclusive value =
     (case py_lt_int value minimum_value of
        Inl e \<Rightarrow> Inl e
      | Inr is_below \<Rightarrow>
          if is_below \<or> (exclusive \<and> py_eq value (PInt minimum_value))
          then Inl (MinValidationError value minimum_value exclusive)
          else Inr ())"

definition Max_validate :: "int \<Rightarrow> bool \<Rightarrow> pyval \<Rightarrow> unit result" where
  "Max_validate maximum_value exclusive value =
     (case py_gt_int value maximum_value of
        Inl e \<Rightarrow> Inl e
      | Inr is_above \<Rightarrow>
          if is_above \<or> (exclusive \<and> py_eq value (PInt maximum_value))
          then Inl (MaxValidationError value maximum_value exclusive)
          else Inr ())"

definition Min :: "int \<Rightarrow> bool \<Rightarrow> validator" where
  "Min minimum_value exclusive = Validator (Some (Min_validate minimum_value exclusive)) None"

definition Max :: "int \<Rightarrow> bool \<Rightarrow> validator" where
  "Max maximum_value exclusive = Validator (Some (Max_validate maximum_value exclusive)) None"

text \<open>
  \<^verbatim>\<open>
  class Length:
      def __init__(self, minimum_value=None, maximum_value=None):
          if minimum_value is None and maximum_value is None:
              raise ValueError(...)
      def validate(self, value):
          len_ = len(value)
          if self.minimum_value is not None and len_ < self.minimum_value:
              raise MinLengthError(value, self.minimum_value)
          if self.maximum_value is not None and len_ > self.maximum_value:
              raise MaxLengthError(value, self.maximum_value)
  \<close>
\<close>

definition py_len :: "pyval \<Rightarrow> nat result" where
  "py_len v =
     (case v of
        PStr s \<Rightarrow> Inr (length s)
      | PList xs \<Rightarrow> Inr (length xs)
      | PTuple xs \<Rightarrow> Inr (length xs)
      | PDict kvs \<Rightarrow> Inr (length kvs)
      | _ \<Rightarrow> Inl TypeError)"

definition Length_validate :: "nat option \<Rightarrow> nat option \<Rightarrow> pyval \<Rightarrow> unit result" where
  "Length_validate minimum_value maximum_value value =
     (case py_len value of
        Inl e \<Rightarrow> Inl e
      | Inr len \<Rightarrow>
          if minimum_value \<noteq> None \<and> len < the minimum_value
          then Inl (MinLengthError value (the minimum_value))
          else if maximum_value \<noteq> None \<and> len > the maximum_value
          then Inl (MaxLengthError value (the maximum_value))
          else Inr ())"

definition Length :: "nat option \<Rightarrow> nat option \<Rightarrow> validator result" where
  "Length minimum_value maximum_value =
     (if minimum_value = None \<and> maximum_value = None then Inl ValueError
      else Inr (Validator (Some (Length_validate minimum_value maximum_value)) None))"

section \<open>Fields (fields.py)\<close>

text \<open>
  The attributes every field has (\<open>BaseField.__init__\<close>): \<open>types\<close> is the accepted-type
  tuple (\<open>None\<close> on \<open>BaseField\<close> itself), \<open>default_value\<close> is \<open>_default\<close> with \<open>None\<close> for
  the \<open>NotSet\<close> marker, and \<open>memory\<close> is the per-instance store, keyed by the instance's
  \<open>_cache_key\<close>.
\<close>

record cfg =
  types :: "pytype list option"
  required :: bool
  nullable :: bool
  validators :: "validator list"
  name :: "string option"
  default_value :: "pyval option"
  memory :: "nat \<Rightarrow> pyval option"

text \<open>
  The field classes with the attributes each adds: the date and time fields their
  \<open>str_format\<close>; \<open>ListField\<close> its \<open>items_types\<close>, \<open>item_validators\<close> and \<open>_omit_empty\<close>;
  \<open>DerivedListField\<close> the wrapped \<open>_field\<close> as well; \<open>MapField\<close> its \<open>_key_field\<close> and
  \<open>_value_field\<close>.
\<close>

datatype field = Field (cfg: cfg) (kind: kind)
and kind =
    BaseK | StringK | IntK | FloatK | BoolK | GenericK
  | TimeK "string option" | DateK "string option" | DateTimeK "string option"
  | ListK "pytype list" "validator list" bool
  | DerivedListK field "pytype list" "validator list" bool
  | EmbeddedK
  | MapK field field

text \<open>A model instance as the descriptor sees it: its \<open>_cache_key\<close> and its class's module.\<close>

record inst =
  cache_key :: nat
  owner_module :: string

subsection \<open>Validation\<close>

text \<open>
  \<^verbatim>\<open>
  def _check_types(self):
      if self.types is None:
          raise ValueError(...)
  def _validate_against_types(self, value):
      if value is not None and not isinstance(value, self.types):
          raise BadTypeError(value, self.types, is_list=False)
  def _check_against_required(self, value):
      if value is None and self.required:
          raise RequiredFieldError()
  def _validate_with_custom_validators(self, value):
      if value is None and self.nullable:
          return
      for validator in self.validators: ...
  \<close>
  \<open>GenericField\<close> overrides \<open>_validate_against_types\<close> with \<open>pass\<close>.
\<close>

definition check_types :: "field \<Rightarrow> unit result" where
  "check_types f = (if types (cfg f) = None then Inl ValueError else Inr ())"

definition validate_against_types :: "field \<Rightarrow> pyval \<Rightarrow> unit result" where
  "validate_against_types f value =
     (case kind f of
        GenericK \<Rightarrow> Inr ()
      | _ \<Rightarrow>
          if value \<noteq> PNone then
            (case types (cfg f) of
               None \<Rightarrow> Inl TypeError
             | Some ts \<Rightarrow>
                 (case isinstance value ts of
                    Inl e \<Rightarrow> Inl e
                  | Inr ok \<Rightarrow>
                      if \<not> ok then Inl (BadTypeError value (Some ts) False) else Inr ()))
          else Inr ())"

definition check_against_required :: "field \<Rightarrow> pyval \<Rightarrow> unit result" where
  "check_against_required f value =
     (if value = PNone \<and> required (cfg f) then Inl RequiredFieldError else Inr ())"

definition validate_with_custom_validators :: "field \<Rightarrow> pyval \<Rightarrow> unit result" where
  "validate_with_custom_validators f value =
     (if value = PNone \<and> nullable (cfg f) then Inr ()
      else run_validators (validators (cfg f)) value)"

text \<open>
  \<^verbatim>\<open>
  def validate(self, value):          # BaseField
      self._check_types()
      self._validate_against_types(value)
      self._check_against_required(value)
      self._validate_with_custom_validators(value)
  \<close>
\<close>

definition BaseField_validate :: "field \<Rightarrow> pyval \<Rightarrow> unit result" where
  "BaseField_validate f value =
     (case check_types f of
        Inl e \<Rightarrow> Inl e
      | Inr _ \<Rightarrow>
          (case validate_against_types f value of
             Inl e \<Rightarrow> Inl e
           | Inr _ \<Rightarrow>
               (case check_against_required f value of
                  Inl e \<Rightarrow> Inl e
                | Inr _ \<Rightarrow> validate_with_custom_validators f value)))"

text \<open>A \<open>for\<close> loop whose body may raise, and iteration over any value.\<close>

fun for_each :: "('a \<Rightarrow> unit result) \<Rightarrow> 'a list \<Rightarrow> unit result" where
  "for_each body [] = Inr ()"
| "for_each body (a # as) =
     (case body a of Inl e \<Rightarrow> Inl e | Inr _ \<Rightarrow> for_each body as)"

definition iterate :: "ext \<Rightarrow> pyval \<Rightarrow> pyval list result" where
  "iterate x v = (case v of PObj _ _ \<Rightarrow> obj_iter x v | _ \<Rightarrow> py_iter v)"

text \<open>
  \<^verbatim>\<open>
  def validate_single_value(self, value):      # ListField
      for validator in self.item_validators: ...
      if len(self.items_types) == 0:
          return
      if not isinstance(value, self.items_types):
          raise BadTypeError(value, self.items_types, is_list=True)
  \<close>
\<close>

definition ListField_validate_single_value ::
  "pytype list \<Rightarrow> validator list \<Rightarrow> pyval \<Rightarrow> unit result" where
  "ListField_validate_single_value items_types item_validators value =
     (case run_validators item_validators value of
        Inl e \<Rightarrow> Inl e
      | Inr _ \<Rightarrow>
          if length items_types = 0 then Inr ()
          else
            (case isinstance value items_types of
               Inl e \<Rightarrow> Inl e
             | Inr ok \<Rightarrow>
                 if \<not> ok then Inl (BadTypeError value (Some items_types) True)
                 else Inr ()))"

text \<open>
  \<open>value.validate()\<close> as \<open>EmbeddedField.validate\<close> calls it: a model instance runs its own
  validation, any other value has no such method, and an \<open>AttributeError\<close> is swallowed.
\<close>

definition embedded_validate :: "ext \<Rightarrow> pyval \<Rightarrow> unit result" where
  "embedded_validate x value =
     (case value of
        PObj _ _ \<Rightarrow>
          (if obj_validate x value = Inl AttributeError then Inr () else obj_validate x value)
      | _ \<Rightarrow> Inr ())"

text \<open>\<open>values.items()\<close>: only a dict has it.\<close>

definition dict_items :: "pyval \<Rightarrow> (pyval \<times> pyval) list result" where
  "dict_items v = (case v of PDict kvs \<Rightarrow> Inr kvs | _ \<Rightarrow> Inl AttributeError)"

text \<open>
  \<open>validate\<close> with its overrides: \<open>ListField\<close> and \<open>DerivedListField\<close> validate every
  item after the base checks (the latter through the wrapped field), \<open>EmbeddedField\<close>
  lets the value validate itself, \<open>MapField\<close> validates every key and value of a
  mapping that is not \<open>None\<close>.
\<close>

fun validate :: "ext \<Rightarrow> field \<Rightarrow> pyval \<Rightarrow> unit result" where
  "validate x (Field c (ListK items_types item_validators omit_empty)) value =
     (case BaseField_validate (Field c (ListK items_types item_validators omit_empty)) value of
        Inl e \<Rightarrow> Inl e
      | Inr _ \<Rightarrow>
          (case iterate x value of
             Inl e \<Rightarrow> Inl e
           | Inr items \<Rightarrow>
               for_each (ListField_validate_single_value items_types item_validators) items))"
| "validate x (Field c (DerivedListK inner items_types item_validators omit_empty)) value =
     (case BaseField_validate
             (Field c (DerivedListK inner items_types item_validators omit_empty)) value of
        Inl e \<Rightarrow> Inl e
      | Inr _ \<Rightarrow>
          (case iterate x value of
             Inl e \<Rightarrow> Inl e
           | Inr items \<Rightarrow> for_each (\<lambda>item. validate x inner item) items))"
| "validate x (Field c EmbeddedK) value =
     (case BaseField_validate (Field c EmbeddedK) value of
        Inl e \<Rightarrow> Inl e
      | Inr _ \<Rightarrow> embedded_validate x value)"
| "validate x (Field c (MapK key_field value_field)) values =
     (case BaseField_validate (Field c (MapK key_field value_field)) values of
        Inl e \<Rightarrow> Inl e
      | Inr _ \<Rightarrow>
          if values = PNone then Inr ()
          else
            (case dict_items values of
               Inl e \<Rightarrow> Inl e
             | Inr items \<Rightarrow>
                 for_each
                   (\<lambda>(key, value).
                      case validate x key_field key of
                        Inl e \<Rightarrow> Inl e
                      | Inr _ \<Rightarrow> validate x value_field value)
                   items))"
| "validate x (Field c k) value = BaseField_validate (Field c k) value"

subsection \<open>Defaults\<close>

text \<open>
  \<^verbatim>\<open>
  def get_default_value(self):                 # BaseField
      return self._default if self.has_default else None
  def get_default_value(self):                 # ListField
      default = super(ListField, self).get_default_value()
      if default is None:
          return ModelCollection(self)
      return default
  def get_default_value(self) -> any:          # MapField
      default = super(MapField, self).get_default_value()
      if default is None and self.required:
          return dict()
      return default
  \<close>
\<close>

definition has_default :: "field \<Rightarrow> bool" where
  "has_default f = (default_value (cfg f) \<noteq> None)"

definition BaseField_get_default_value :: "field \<Rightarrow> pyval" where
  "BaseField_get_default_value f =
     (if has_default f then the (default_value (cfg f)) else PNone)"

text \<open>
  Modelled from the spec: \<open>ModelCollection\<close> (jsonmodels/collections.py, not among the
  sources) is the empty, order-preserving collection bound to the field that a list field
  materializes as its default; it is a list.
\<close>

definition ModelCollection :: "field \<Rightarrow> pyval" where
  "ModelCollection f = PList []"

definition get_default_value :: "field \<Rightarrow> pyval" where
  "get_default_value f =
     (let dflt = BaseField_get_default_value f in
      case kind f of
        ListK _ _ _ \<Rightarrow> if dflt = PNone then ModelCollection f else dflt
      | DerivedListK _ _ _ _ \<Rightarrow> if dflt = PNone then ModelCollection f else dflt
      | MapK _ _ \<Rightarrow> if dflt = PNone \<and> required (cfg f) then PDict [] else dflt
      | _ \<Rightarrow> dflt)"

subsection \<open>Polymorphic resolution\<close>

text \<open>
  Modelled from the spec: the field registry of a model class (jsonmodels/models.py, not
  among the sources) yields (attribute name, wire-name override, field) triples; only
  the first two are read here. A class exposes a registry when it is a model class.
\<close>

definition has_iterate_with_name :: "pytype \<Rightarrow> bool" where
  "has_iterate_with_name t = (case t of TModel _ _ \<Rightarrow> True | _ \<Rightarrow> False)"

definition iterate_with_name :: "pytype \<Rightarrow> (string \<times> string option) list" where
  "iterate_with_name t = (case t of TModel _ registry \<Rightarrow> registry | _ \<Rightarrow> [])"

text \<open>\<open>{name or attr for attr, name, field in model.iterate_with_name()}\<close>\<close>

definition name_or_attr :: "string \<times> string option \<Rightarrow> string" where
  "name_or_attr p =
     (case snd p of None \<Rightarrow> fst p | Some n \<Rightarrow> if n = [] then fst p else n)"

definition wire_names :: "pytype \<Rightarrow> string list" where
  "wire_names t = map name_or_attr (iterate_with_name t)"

text \<open>
  A dict built key by key, as a comprehension does: a repeated key keeps its first place
  and takes the last value.
\<close>

fun assoc_set :: "('k \<times> 'v) list \<Rightarrow> 'k \<Rightarrow> 'v \<Rightarrow> ('k \<times> 'v) list" where
  "assoc_set [] k v = [(k, v)]"
| "assoc_set ((k', v') # kvs) k v =
     (if k' = k then (k', v) # kvs else (k', v') # assoc_set kvs k v)"

definition model_fields :: "pytype list \<Rightarrow> (pytype \<times> string list) list" where
  "model_fields models =
     foldl (\<lambda>d model. assoc_set d model (wire_names model)) []
       (filter has_iterate_with_name models)"

text \<open>\<open>fields.issuperset(value)\<close>: every key of the dict is one of the names.\<close>

definition issuperset :: "string list \<Rightarrow> (pyval \<times> pyval) list \<Rightarrow> bool" where
  "issuperset names value =
     list_all (\<lambda>k. case k of PStr s \<Rightarrow> s \<in> set names | _ \<Rightarrow> False) (map fst value)"

text \<open>
  \<^verbatim>\<open>
  def _get_embed_type(value, models):
      if len(models) > 1:
          model_fields = {
              model: {name or attr for attr, name, field in model.iterate_with_name()}
              for model in models if hasattr(model, "iterate_with_name")
          }
          matching_models = [model for model, fields in model_fields.items()
                             if fields.issuperset(value)]
          if len(matching_models) != 1:
              raise AmbiguousTypeError(models)
          return matching_models[0]
      return models[0]
  \<close>
\<close>

definition matching_models :: "(pyval \<times> pyval) list \<Rightarrow> pytype list \<Rightarrow> pytype list" where
  "matching_models value models =
     map fst (filter (\<lambda>(model, fields). issuperset fields value) (model_fields models))"

definition get_embed_type :: "(pyval \<times> pyval) list \<Rightarrow> pytype list \<Rightarrow> pytype result" where
  "get_embed_type value models =
     (if length models > 1 then
        (if length (matching_models value models) \<noteq> 1 then Inl (AmbiguousTypeError models)
         else Inr (hd (matching_models value models)))
      else (case models of [] \<Rightarrow> Inl IndexError | m # _ \<Rightarrow> Inr m))"

subsection \<open>Parsing\<close>

text \<open>A list comprehension whose element expression may raise.\<close>

fun map_result :: "('a \<Rightarrow> 'b result) \<Rightarrow> 'a list \<Rightarrow> 'b list result" where
  "map_result g [] = Inr []"
| "map_result g (a # as) =
     (case g a of
        Inl e \<Rightarrow> Inl e
      | Inr b \<Rightarrow> (case map_result g as of Inl e \<Rightarrow> Inl e | Inr bs \<Rightarrow> Inr (b # bs)))"

text \<open>
  \<^verbatim>\<open>
  def parse_value(self, value):                # IntField
      parsed = super(IntField, self).parse_value(value)
      if parsed is None:
          return parsed
      try:
          return int(parsed)
      except ValueError:
          raise BadTypeError(value, types=(int,), is_list=False)
  \<close>
\<close>

definition IntField_parse_value :: "pyval \<Rightarrow> pyval result" where
  "IntField_parse_value value =
     (if value = PNone then Inr PNone
      else
        (case py_int value of
           Inl e \<Rightarrow>
             if e = ValueError then Inl (BadTypeError value (Some [TInt]) False) else Inl e
         | Inr i \<Rightarrow> Inr (PInt i)))"

text \<open>\<open>return bool(parsed) if parsed is not None else None\<close>\<close>

definition BoolField_parse_value :: "pyval \<Rightarrow> pyval result" where
  "BoolField_parse_value value =
     (if value \<noteq> PNone then Inr (PBool (truthy value)) else Inr PNone)"

text \<open>
  \<^verbatim>\<open>
  def parse_value(self, value):                # TimeField
      if value is None:
          return value
      if isinstance(value, datetime.time):
          return value
      return parse(value).timetz()
  def parse_value(self, value):                # DateField
      if value is None:
          return value
      if isinstance(value, datetime.date):
          return value
      return parse(value).date()
  def parse_value(self, value):                # DateTimeField
      if isinstance(value, datetime.datetime):
          return value
      if value:
          return parse(value)
      else:
          return None
  \<close>
\<close>

definition TimeField_parse_value :: "ext \<Rightarrow> pyval \<Rightarrow> pyval result" where
  "TimeField_parse_value x value =
     (if value = PNone then Inr value
      else if instance_of value TTime then Inr value
      else (case du_parse x value of Inl e \<Rightarrow> Inl e | Inr (d, t) \<Rightarrow> Inr (PTime t)))"

definition DateField_parse_value :: "ext \<Rightarrow> pyval \<Rightarrow> pyval result" where
  "DateField_parse_value x value =
     (if value = PNone then Inr value
      else if instance_of value TDate then Inr value
      else (case du_parse x value of Inl e \<Rightarrow> Inl e | Inr (d, t) \<Rightarrow> Inr (PDate d)))"

definition DateTimeField_parse_value :: "ext \<Rightarrow> pyval \<Rightarrow> pyval result" where
  "DateTimeField_parse_value x value =
     (if instance_of value TDateTime then Inr value
      else if truthy value then
        (case du_parse x value of Inl e \<Rightarrow> Inl e | Inr (d, t) \<Rightarrow> Inr (PDateTime d t))
      else Inr PNone)"

text \<open>
  \<^verbatim>\<open>
  def _cast_value(self, value):                # ListField
      if isinstance(value, self.items_types):
          return value
      elif isinstance(value, dict):
          model_type = self._get_embed_type(value, self.items_types)
          return model_type(**value)
      else:
          raise BadTypeError(value, self.items_types, is_list=True)
  \<close>
\<close>

definition cast_value :: "ext \<Rightarrow> pytype list \<Rightarrow> pyval \<Rightarrow> pyval result" where
  "cast_value x items_types value =
     (case isinstance value items_types of
        Inl e \<Rightarrow> Inl e
      | Inr ok \<Rightarrow>
          if ok then Inr value
          else
            (case value of
               PDict kvs \<Rightarrow>
                 (case get_embed_type kvs items_types of
                    Inl e \<Rightarrow> Inl e
                  | Inr model_type \<Rightarrow> construct x model_type kvs)
             | _ \<Rightarrow> Inl (BadTypeError value (Some items_types) True)))"

text \<open>
  \<^verbatim>\<open>
  def parse_value(self, values):               # ListField
      result = self.get_default_value()
      if not values:
          return result
      if not isinstance(values, list):
          return values
      return [self._cast_value(value) for value in values]
  \<close>
\<close>

definition ListField_parse_value :: "ext \<Rightarrow> field \<Rightarrow> pytype list \<Rightarrow> pyval \<Rightarrow> pyval result" where
  "ListField_parse_value x f items_types values =
     (let result = get_default_value f in
      if \<not> truthy values then Inr result
      else
        (case values of
           PList vs \<Rightarrow>
             (case map_result (cast_value x items_types) vs of
                Inl e \<Rightarrow> Inl e
              | Inr ws \<Rightarrow> Inr (PList ws))
         | _ \<Rightarrow> Inr values))"

text \<open>
  \<^verbatim>\<open>
  def parse_value(self, value):                # EmbeddedField
      if not isinstance(value, dict):
          return value
      embed_type = self._get_embed_type(value, self.types)
      return embed_type(**value)
  \<close>
  \<open>len(None)\<close> is a \<open>TypeError\<close>.
\<close>

definition EmbeddedField_parse_value :: "ext \<Rightarrow> field \<Rightarrow> pyval \<Rightarrow> pyval result" where
  "EmbeddedField_parse_value x f value =
     (case value of
        PDict kvs \<Rightarrow>
          (case types (cfg f) of
             None \<Rightarrow> Inl TypeError
           | Some models \<Rightarrow>
               (case get_embed_type kvs models of
                  Inl e \<Rightarrow> Inl e
                | Inr embed_type \<Rightarrow> construct x embed_type kvs))
      | _ \<Rightarrow> Inr value)"

text \<open>
  \<open>except TypeError: raise BadTypeError(values, self._field.types, is_list=True)\<close>
  around the comprehension of \<open>DerivedListField.parse_value\<close>.
\<close>

definition retype :: "pyval \<Rightarrow> pytype list option \<Rightarrow> 'a result \<Rightarrow> 'a result" where
  "retype values ts r =
     (case r of
        Inl e \<Rightarrow> if e = TypeError then Inl (BadTypeError values ts True) else Inl e
      | Inr a \<Rightarrow> Inr a)"

text \<open>
  \<open>parse_value\<close> with its overrides. \<open>BaseField\<close>, and with it the string, float and
  generic fields, return the value as it is.
  \<^verbatim>\<open>
  def parse_value(self, values):               # DerivedListField
      try:
          return [self._field.parse_value(value) for value in values]
      except TypeError:
          raise BadTypeError(values, self._field.types, is_list=True)
  def parse_value(self, values):               # MapField
      values = super().parse_value(values)
      if values is None:
          return
      items = [
          (self._key_field.parse_value(key), self._value_field.parse_value(value))
          for key, value in values.items()
      ]
      return type(values)(items)
  \<close>
\<close>

fun parse_value :: "ext \<Rightarrow> field \<Rightarrow> pyval \<Rightarrow> pyval result" where
  "parse_value x (Field c IntK) value = IntField_parse_value value"
| "parse_value x (Field c BoolK) value = BoolField_parse_value value"
| "parse_value x (Field c (TimeK str_format)) value = TimeField_parse_value x value"
| "parse_value x (Field c (DateK str_format)) value = DateField_parse_value x value"
| "parse_value x (Field c (DateTimeK str_format)) value = DateTimeField_parse_value x value"
| "parse_value x (Field c (ListK items_types item_validators omit_empty)) values =
     ListField_parse_value x (Field c (ListK items_types item_validators omit_empty))
       items_types values"
| "parse_value x (Field c (DerivedListK inner items_types item_validators omit_empty)) values =
     retype values (types (cfg inner))
       (case iterate x values of
          Inl e \<Rightarrow> Inl e
        | Inr vs \<Rightarrow>
            (case map_result (\<lambda>value. parse_value x inner value) vs of
               Inl e \<Rightarrow> Inl e
             | Inr ws \<Rightarrow> Inr (PList ws)))"
| "parse_value x (Field c EmbeddedK) value =
     EmbeddedField_parse_value x (Field c EmbeddedK) value"
| "parse_value x (Field c (MapK key_field value_field)) values =
     (if values = PNone then Inr PNone
      else
        (case dict_items values of
           Inl e \<Rightarrow> Inl e
         | Inr kvs \<Rightarrow>
             (case map_result
                     (\<lambda>(key, value).
                        case parse_value x key_field key of
                          Inl e \<Rightarrow> Inl e
                        | Inr k \<Rightarrow>
                            (case parse_value x value_field value of
                               Inl e \<Rightarrow> Inl e
                             | Inr v \<Rightarrow> Inr (k, v)))
                     kvs of
                Inl e \<Rightarrow> Inl e
              | Inr items \<Rightarrow> py_dict [] items)))"
| "parse_value x (Field c k) value = Inr value"

subsection \<open>Serialization\<close>

text \<open>
  \<open>value.isoformat()\<close> and \<open>value.strftime(format)\<close>: times, dates and datetimes have
  the two methods, any other value raises \<open>AttributeError\<close>.
\<close>

definition has_time_methods :: "pyval \<Rightarrow> bool" where
  "has_time_methods v =
     (case v of PTime _ \<Rightarrow> True | PDate _ \<Rightarrow> True | PDateTime _ _ \<Rightarrow> True | _ \<Rightarrow> False)"

definition value_isoformat :: "ext \<Rightarrow> pyval \<Rightarrow> pyval result" where
  "value_isoformat x v =
     (if has_time_methods v then Inr (PStr (isoformat x v)) else Inl AttributeError)"

definition value_strftime :: "ext \<Rightarrow> pyval \<Rightarrow> string \<Rightarrow> pyval result" where
  "value_strftime x v fmt =
     (if has_time_methods v then Inr (PStr (strftime x v fmt)) else Inl AttributeError)"

text \<open>\<open>if self.str_format:\<close> holds for a format that is given and not empty.\<close>

definition format_given :: "string option \<Rightarrow> bool" where
  "format_given str_format = (str_format \<noteq> None \<and> str_format \<noteq> Some [])"

text \<open>
  \<^verbatim>\<open>
  def to_struct(self, value):                  # TimeField, DateTimeField
      if self.str_format:
          return value.strftime(self.str_format)
      return value.isoformat()
  def to_struct(self, value):                  # DateField
      if self.str_format:
          return value.strftime(self.str_format)
      return value.strftime(self.default_format)      # '%Y-%m-%d'
  \<close>
\<close>

definition TimeField_to_struct :: "ext \<Rightarrow> string option \<Rightarrow> pyval \<Rightarrow> pyval result" where
  "TimeField_to_struct x str_format value =
     (if format_given str_format then value_strftime x value (the str_format)
      else value_isoformat x value)"

definition default_format :: string where
  "default_format = ''%Y-%m-%d''"

definition DateField_to_struct :: "ext \<Rightarrow> string option \<Rightarrow> pyval \<Rightarrow> pyval result" where
  "DateField_to_struct x str_format value =
     (if format_given str_format then value_strftime x value (the str_format)
      else value_strftime x value default_format)"

text \<open>
  \<^verbatim>\<open>
  def _elem_to_struct(self, value):            # ListField
      try:
          return value.to_struct()
      except AttributeError:
          return value
  \<close>
  and \<open>value.to_struct()\<close> without the handler, as \<open>EmbeddedField.to_struct\<close> calls it.
\<close>

definition value_to_struct :: "ext \<Rightarrow> pyval \<Rightarrow> pyval result" where
  "value_to_struct x value =
     (case value of PObj _ _ \<Rightarrow> obj_to_struct x value | _ \<Rightarrow> Inl AttributeError)"

definition elem_to_struct :: "ext \<Rightarrow> pyval \<Rightarrow> pyval result" where
  "elem_to_struct x value =
     (if value_to_struct x value = Inl AttributeError then Inr value
      else value_to_struct x value)"

text \<open>
  \<^verbatim>\<open>
  def to_struct(self, values: any) -> any:     # GenericField
      from .models import Base
      if isinstance(values, Base):
          return values.to_struct()
      if isinstance(values, (list, tuple)):
          return [self.to_struct(value) for value in values]
      if isinstance(values, dict):
          items = [(self.to_struct(key), self.to_struct(value))
                   for key, value in values.items()]
          return type(values)(items)
      return values
  \<close>
\<close>

function (sequential) GenericField_to_struct :: "ext \<Rightarrow> pyval \<Rightarrow> pyval result"
  and GenericField_to_struct_list :: "ext \<Rightarrow> pyval list \<Rightarrow> pyval list result"
  and GenericField_to_struct_items ::
    "ext \<Rightarrow> (pyval \<times> pyval) list \<Rightarrow> (pyval \<times> pyval) list result" where
  "GenericField_to_struct x (PObj c attrs) = obj_to_struct x (PObj c attrs)"
| "GenericField_to_struct x (PList vs) =
     (case GenericField_to_struct_list x vs of Inl e \<Rightarrow> Inl e | Inr ws \<Rightarrow> Inr (PList ws))"
| "GenericField_to_struct x (PTuple vs) =
     (case GenericField_to_struct_list x vs of Inl e \<Rightarrow> Inl e | Inr ws \<Rightarrow> Inr (PList ws))"
| "GenericField_to_struct x (PDict kvs) =
     (case GenericField_to_struct_items x kvs of
        Inl e \<Rightarrow> Inl e
      | Inr items \<Rightarrow> py_dict [] items)"
| "GenericField_to_struct x v = Inr v"
| "GenericField_to_struct_list x [] = Inr []"
| "GenericField_to_struct_list x (v # vs) =
     (case GenericField_to_struct x v of
        Inl e \<Rightarrow> Inl e
      | Inr w \<Rightarrow>
          (case GenericField_to_struct_list x vs of
             Inl e \<Rightarrow> Inl e
           | Inr ws \<Rightarrow> Inr (w # ws)))"
| "GenericField_to_struct_items x [] = Inr []"
| "GenericField_to_struct_items x ((k, v) # kvs) =
     (case GenericField_to_struct x k of
        Inl e \<Rightarrow> Inl e
      | Inr k' \<Rightarrow>
          (case GenericField_to_struct x v of
             Inl e \<Rightarrow> Inl e
           | Inr v' \<Rightarrow>
               (case GenericField_to_struct_items x kvs of
                  Inl e \<Rightarrow> Inl e
                | Inr items \<Rightarrow> Inr ((k', v') # items))))"
  by pat_completeness auto

termination
  by (relation "measure (\<lambda>a. case a of
          Inl (x, v) \<Rightarrow> size v
        | Inr (Inl (x, vs)) \<Rightarrow> size_list size vs
        | Inr (Inr (x, kvs)) \<Rightarrow> size_list (size_prod size size) kvs)") auto

text \<open>
  \<open>to_struct\<close> with its overrides; \<open>BaseField\<close>, and with it the string, integer, float
  and boolean fields, return the value as it is.
  \<^verbatim>\<open>
  def to_struct(self, values):                 # ListField
      return [self._elem_to_struct(v) for v in values] \
          if values or not self._omit_empty else None
  def to_struct(self, values):                 # DerivedListField
      return [self._field.to_struct(value) for value in values] \
          if values or not self._omit_empty else None
  def to_struct(self, value):                  # EmbeddedField
      return value.to_struct()
  def to_struct(self, values):                 # MapField
      items = [(self._key_field.to_struct(key), self._value_field.to_struct(value))
               for key, value in values.items()]
      return type(values)(items)
  \<close>
\<close>

fun to_struct :: "ext \<Rightarrow> field \<Rightarrow> pyval \<Rightarrow> pyval result" where
  "to_struct x (Field c (TimeK str_format)) value = TimeField_to_struct x str_format value"
| "to_struct x (Field c (DateTimeK str_format)) value = TimeField_to_struct x str_format value"
| "to_struct x (Field c (DateK str_format)) value = DateField_to_struct x str_format value"
| "to_struct x (Field c GenericK) value = GenericField_to_struct x value"
| "to_struct x (Field c (ListK items_types item_validators omit_empty)) values =
     (if truthy values \<or> \<not> omit_empty then
        (case iterate x values of
           Inl e \<Rightarrow> Inl e
         | Inr vs \<Rightarrow>
             (case map_result (elem_to_struct x) vs of
                Inl e \<Rightarrow> Inl e
              | Inr ws \<Rightarrow> Inr (PList ws)))
      else Inr PNone)"
| "to_struct x (Field c (DerivedListK inner items_types item_validators omit_empty)) values =
     (if truthy values \<or> \<not> omit_empty then
        (case iterate x values of
           Inl e \<Rightarrow> Inl e
         | Inr vs \<Rightarrow>
             (case map_result (\<lambda>value. to_struct x inner value) vs of
                Inl e \<Rightarrow> Inl e
              | Inr ws \<Rightarrow> Inr (PList ws)))
      else Inr PNone)"
| "to_struct x (Field c EmbeddedK) value = value_to_struct x value"
| "to_struct x (Field c (MapK key_field value_field)) values =
     (case dict_items values of
        Inl e \<Rightarrow> Inl e
      | Inr kvs \<Rightarrow>
          (case map_result
                  (\<lambda>(key, value).
                     case to_struct x key_field key of
                       Inl e \<Rightarrow> Inl e
                     | Inr k \<Rightarrow>
                         (case to_struct x value_field value of
                            Inl e \<Rightarrow> Inl e
                          | Inr v \<Rightarrow> Inr (k, v)))
                  kvs of
             Inl e \<Rightarrow> Inl e
           | Inr items \<Rightarrow> py_dict [] items))"
| "to_struct x (Field c k) value = Inr value"

subsection \<open>The descriptor: lazy initialization, \<open>__set__\<close> and \<open>__get__\<close>\<close>

text \<open>
  \<open>_finish_initialization(owner)\<close>: \<open>BaseField\<close> does nothing; \<open>ListField\<close> resolves its
  \<open>items_types\<close> and \<open>EmbeddedField\<close> its \<open>types\<close> (the attribute is assigned only after
  the whole tuple is resolved); \<open>MapField\<close> passes the call to its key field, then to its
  value field. The result is the exception raised, if any, and the field as the call
  leaves it.
\<close>

fun finish_initialization :: "ext \<Rightarrow> string \<Rightarrow> field \<Rightarrow> error option \<times> field" where
  "finish_initialization x owner (Field c (ListK items_types item_validators omit_empty)) =
     (case resolve_types x owner items_types of
        Inl e \<Rightarrow> (Some e, Field c (ListK items_types item_validators omit_empty))
      | Inr ts \<Rightarrow> (None, Field c (ListK ts item_validators omit_empty)))"
| "finish_initialization x owner
       (Field c (DerivedListK inner items_types item_validators omit_empty)) =
     (case resolve_types x owner items_types of
        Inl e \<Rightarrow> (Some e, Field c (DerivedListK inner items_types item_validators omit_empty))
      | Inr ts \<Rightarrow> (None, Field c (DerivedListK inner ts item_validators omit_empty)))"
| "finish_initialization x owner (Field c EmbeddedK) =
     (case types c of
        None \<Rightarrow> (Some TypeError, Field c EmbeddedK)
      | Some models \<Rightarrow>
          (case resolve_types x owner models of
             Inl e \<Rightarrow> (Some e, Field c EmbeddedK)
           | Inr ts \<Rightarrow> (None, Field (c\<lparr>types := Some ts\<rparr>) EmbeddedK)))"
| "finish_initialization x owner (Field c (MapK key_field value_field)) =
     (case finish_initialization x owner key_field of
        (Some e, key_field') \<Rightarrow> (Some e, Field c (MapK key_field' value_field))
      | (None, key_field') \<Rightarrow>
          (case finish_initialization x owner value_field of
             (r, value_field') \<Rightarrow> (r, Field c (MapK key_field' value_field'))))"
| "finish_initialization x owner (Field c k) = (None, Field c k)"

text \<open>\<open>self.memory[instance._cache_key] = value\<close>\<close>

definition store :: "field \<Rightarrow> nat \<Rightarrow> pyval \<Rightarrow> field" where
  "store f key value = Field ((cfg f)\<lparr>memory := (memory (cfg f))(key \<mapsto> value)\<rparr>) (kind f)"

text \<open>
  \<^verbatim>\<open>
  def __set__(self, instance, value):
      self._finish_initialization(type(instance))
      value = self.parse_value(value)
      self.validate(value)
      self.memory[instance._cache_key] = value
  \<close>
  The result is the outcome of the call and the field as the call leaves it.
\<close>

definition field_set :: "ext \<Rightarrow> field \<Rightarrow> inst \<Rightarrow> pyval \<Rightarrow> unit result \<times> field" where
  "field_set x f obj value =
     (case finish_initialization x (owner_module obj) f of
        (Some e, f') \<Rightarrow> (Inl e, f')
      | (None, f') \<Rightarrow>
          (case parse_value x f' value of
             Inl e \<Rightarrow> (Inl e, f')
           | Inr parsed \<Rightarrow>
               (case validate x f' parsed of
                  Inl e \<Rightarrow> (Inl e, f')
                | Inr _ \<Rightarrow> (Inr (), store f' (cache_key obj) parsed))))"



subsection \<open>Construction\<close>

text \<open>
  \<^verbatim>\<open>
  def _validate_name(self):
      if self.name is None:
          return
      if not re.match(r'^[A-Za-z_](([\w\-]*)?\w+)?$', self.name):
          raise ValueError('Wrong name', self.name)
  \<close>
  The pattern accepts a letter or underscore followed by nothing, or by word characters
  and hyphens that end in a word character; \<open>$\<close> also matches before a final newline.
\<close>

definition is_alpha :: "char \<Rightarrow> bool" where
  "is_alpha c =
     ((65 \<le> (of_char c :: nat) \<and> (of_char c :: nat) \<le> 90)
      \<or> (97 \<le> (of_char c :: nat) \<and> (of_char c :: nat) \<le> 122))"

definition is_word :: "char \<Rightarrow> bool" where
  "is_word c = (is_alpha c \<or> is_digit c \<or> c = CHR ''_'')"

definition name_core :: "string \<Rightarrow> bool" where
  "name_core s =
     (case s of
        [] \<Rightarrow> False
      | c # rest \<Rightarrow>
          (is_alpha c \<or> c = CHR ''_'')
          \<and> (rest = []
               \<or> (list_all (\<lambda>d. is_word d \<or> d = CHR ''-'') rest \<and> is_word (last rest))))"

definition name_matches :: "string \<Rightarrow> bool" where
  "name_matches s =
     (name_core s \<or> (s \<noteq> [] \<and> last s = CHR 0x0A \<and> name_core (butlast s)))"

definition validate_name :: "string option \<Rightarrow> unit result" where
  "validate_name n =
     (case n of
        None \<Rightarrow> Inr ()
      | Some s \<Rightarrow> if \<not> name_matches s then Inl ValueError else Inr ())"

text \<open>
  The \<open>validators\<close> and \<open>item_validators\<close> arguments: absent, one validator, or a list.
  \<^verbatim>\<open>
  def _assign_validators(self, validators):
      if validators and not isinstance(validators, list):
          validators = [validators]
      self.validators = validators or []
  \<close>
\<close>

datatype validators_arg = NoValidators | OneValidator validator | ValidatorList "validator list"

definition assign_validators :: "validators_arg \<Rightarrow> validator list" where
  "assign_validators a =
     (case a of NoValidators \<Rightarrow> [] | OneValidator v \<Rightarrow> [v] | ValidatorList vs \<Rightarrow> vs)"

text \<open>
  \<^verbatim>\<open>
  def __init__(self, required=False, nullable=False, help_text=None,
               validators=None, default=NotSet, name=None):      # BaseField
      self.memory = WeakKeyDictionary()
      self.required = required
      self.help_text = help_text
      self.nullable = nullable
      self._assign_validators(validators)
      self.name = name
      self._validate_name()
      if default is not NotSet:
          self.validate(default)
      self._default = default
  \<close>
  The class of the field under construction is given by its \<open>kind\<close> (with the attributes
  the subclass has already assigned) and its \<open>types\<close>; \<open>default\<close> is \<open>None\<close> for \<open>NotSet\<close>.
\<close>

definition BaseField_init ::
  "ext \<Rightarrow> kind \<Rightarrow> pytype list option \<Rightarrow> bool \<Rightarrow> bool \<Rightarrow> validators_arg \<Rightarrow> pyval option
   \<Rightarrow> string option \<Rightarrow> field result" where
  "BaseField_init x k ts required_arg nullable_arg validators_arg default_arg name_arg =
     (let self = Field \<lparr>types = ts, required = required_arg, nullable = nullable_arg,
                        validators = assign_validators validators_arg, name = name_arg,
                        default_value = None, memory = Map.empty\<rparr> k
      in case validate_name name_arg of
           Inl e \<Rightarrow> Inl e
         | Inr _ \<Rightarrow>
             (case default_arg of
                None \<Rightarrow> Inr self
              | Some d \<Rightarrow>
                  (case validate x self d of
                     Inl e \<Rightarrow> Inl e
                   | Inr _ \<Rightarrow> Inr (Field ((cfg self)\<lparr>default_value := Some d\<rparr>) k))))"

text \<open>The scalar fields: the class attribute \<open>types\<close> and, for times and dates, \<open>str_format\<close>.\<close>

definition StringField_init where
  "StringField_init x = BaseField_init x StringK (Some [TStr])"

definition IntField_init where
  "IntField_init x = BaseField_init x IntK (Some [TInt])"

definition FloatField_init where
  "FloatField_init x = BaseField_init x FloatK (Some [TFloat, TInt])"

definition BoolField_init where
  "BoolField_init x = BaseField_init x BoolK (Some [TBool])"

definition GenericField_init where
  "GenericField_init x = BaseField_init x GenericK (Some [TAnyFn])"

definition TimeField_init where
  "TimeField_init x str_format = BaseField_init x (TimeK str_format) (Some [TTime])"

definition DateField_init where
  "DateField_init x str_format = BaseField_init x (DateK str_format) (Some [TDate])"

definition DateTimeField_init where
  "DateTimeField_init x str_format = BaseField_init x (DateTimeK str_format) (Some [TDateTime])"

text \<open>
  The \<open>items_types\<close> argument of \<open>ListField\<close>: absent, one object (a class or a path
  string), or a sequence of them.
  \<^verbatim>\<open>
  def _assign_types(self, items_types):
      if items_types:
          try:
              self.items_types = tuple(items_types)
          except TypeError:
              self.items_types = items_types,
      else:
          self.items_types = tuple()
      types = []
      for type_ in self.items_types:
          if isinstance(type_, six.string_types):
              types.append(_LazyType(type_))
          else:
              types.append(type_)
      self.items_types = tuple(types)
  \<close>
  \<open>tuple\<close> of a class raises \<open>TypeError\<close>, \<open>tuple\<close> of a string is its characters.
\<close>

datatype type_ref = Cls pytype | Path string

datatype items_arg = NoItems | OneItem type_ref | ManyItems "type_ref list"

definition lazy_or_type :: "type_ref \<Rightarrow> pytype" where
  "lazy_or_type r = (case r of Cls t \<Rightarrow> t | Path p \<Rightarrow> TLazy p)"

definition assign_types :: "items_arg \<Rightarrow> pytype list" where
  "assign_types a =
     (case a of
        NoItems \<Rightarrow> []
      | OneItem (Cls t) \<Rightarrow> [t]
      | OneItem (Path p) \<Rightarrow> map (\<lambda>c. TLazy [c]) p
      | ManyItems rs \<Rightarrow> map lazy_or_type rs)"

text \<open>
  \<^verbatim>\<open>
  def __init__(self, items_types=None, item_validators=(), omit_empty=False,
               *args, **kwargs):                                  # ListField
      self._assign_types(items_types)
      self.item_validators = [item_validators] \
          if item_validators and not isinstance(item_validators, list) \
          else item_validators or []
      super(ListField, self).__init__(*args, **kwargs)
      self.required = False
      self._omit_empty = omit_empty
  \<close>
\<close>

definition clear_required :: "field \<Rightarrow> field" where
  "clear_required f = Field ((cfg f)\<lparr>required := False\<rparr>) (kind f)"

definition ListField_init ::
  "ext \<Rightarrow> items_arg \<Rightarrow> validators_arg \<Rightarrow> bool \<Rightarrow> bool \<Rightarrow> bool \<Rightarrow> validators_arg
   \<Rightarrow> pyval option \<Rightarrow> string option \<Rightarrow> field result" where
  "ListField_init x items_types item_validators omit_empty required_arg nullable_arg
       validators_arg default_arg name_arg =
     (case BaseField_init x
             (ListK (assign_types items_types) (assign_validators item_validators) omit_empty)
             (Some [TList, TTuple]) required_arg nullable_arg validators_arg default_arg name_arg of
        Inl e \<Rightarrow> Inl e
      | Inr self \<Rightarrow> Inr (clear_required self))"

text \<open>
  \<^verbatim>\<open>
  def __init__(self, field: BaseField, *args, **kwargs):        # DerivedListField
      self._field = field
      super(DerivedListField, self).__init__(
          items_types=field.types,
          item_validators=field.validators,
          *args, **kwargs,
      )
  \<close>
\<close>

definition DerivedListField_init ::
  "ext \<Rightarrow> field \<Rightarrow> bool \<Rightarrow> bool \<Rightarrow> bool \<Rightarrow> validators_arg \<Rightarrow> pyval option
   \<Rightarrow> string option \<Rightarrow> field result" where
  "DerivedListField_init x inner omit_empty required_arg nullable_arg validators_arg default_arg
       name_arg =
     (case BaseField_init x
             (DerivedListK inner
                (case types (cfg inner) of None \<Rightarrow> [] | Some ts \<Rightarrow> ts)
                (validators (cfg inner)) omit_empty)
             (Some [TList, TTuple]) required_arg nullable_arg validators_arg default_arg name_arg of
        Inl e \<Rightarrow> Inl e
      | Inr self \<Rightarrow> Inr (clear_required self))"

text \<open>
  \<^verbatim>\<open>
  def __init__(self, model_types, *args, **kwargs):             # EmbeddedField
      self._assign_model_types(model_types)
      super(EmbeddedField, self).__init__(*args, **kwargs)
  def _assign_model_types(self, model_types):
      if not isinstance(model_types, (list, tuple)):
          model_types = (model_types,)
      types = []
      for type_ in model_types:
          if isinstance(type_, six.string_types):
              types.append(_LazyType(type_))
          else:
              types.append(type_)
      self.types = tuple(types)
  \<close>
\<close>

datatype models_arg = OneModel type_ref | ManyModels "type_ref list"

definition assign_model_types :: "models_arg \<Rightarrow> pytype list" where
  "assign_model_types a =
     (case a of OneModel r \<Rightarrow> [lazy_or_type r] | ManyModels rs \<Rightarrow> map lazy_or_type rs)"

definition EmbeddedField_init where
  "EmbeddedField_init x model_types =
     BaseField_init x EmbeddedK (Some (assign_model_types model_types))"

text \<open>
  \<^verbatim>\<open>
  def __init__(self, key_field, value_field, **kwargs):         # MapField
      super(MapField, self).__init__(**kwargs)
      self._key_field = key_field
      self._value_field = value_field
  \<close>
  The default is validated inside \<open>super().__init__\<close>, before the two fields are
  assigned: the base checks run, and the loop over the items of a non-empty mapping then
  fails on the missing \<open>_key_field\<close> with \<open>AttributeError\<close>.
\<close>

definition MapField_init ::
  "field \<Rightarrow> field \<Rightarrow> bool \<Rightarrow> bool \<Rightarrow> validators_arg \<Rightarrow> pyval option \<Rightarrow> string option
   \<Rightarrow> field result" where
  "MapField_init key_field value_field required_arg nullable_arg validators_arg default_arg
       name_arg =
     (let c = \<lparr>types = Some [TDict], required = required_arg, nullable = nullable_arg,
                validators = assign_validators validators_arg, name = name_arg,
                default_value = None, memory = Map.empty\<rparr>;
          self = Field c (MapK key_field value_field)
      in case validate_name name_arg of
           Inl e \<Rightarrow> Inl e
         | Inr _ \<Rightarrow>
             (case default_arg of
                None \<Rightarrow> Inr self
              | Some d \<Rightarrow>
                  (case BaseField_validate self d of
                     Inl e \<Rightarrow> Inl e
                   | Inr _ \<Rightarrow>
                       if d = PNone \<or> dict_items d = Inr []
                       then Inr (Field (c\<lparr>default_value := Some d\<rparr>) (MapK key_field value_field))
                       else Inl AttributeError)))"

section \<open>The claims as the specification words them\<close>



text \<open>
  The wire names of a candidate's declared fields as the specification gives them: the
  explicit name override if one is set, else the declared attribute name.
\<close>

definition declared_name :: "string \<times> string option \<Rightarrow> string" where
  "declared_name entry = (case entry of (attr, None) \<Rightarrow> attr | (attr, Some override) \<Rightarrow> override)"

definition declared_names :: "pytype \<Rightarrow> string set" where
  "declared_names m = declared_name ` set (iterate_with_name m)"

text \<open>
  A candidate is selected for a payload when it exposes a field registry and its name
  set is a superset of the payload's keys.
\<close>

definition selected :: "(pyval \<times> pyval) list \<Rightarrow> pytype \<Rightarrow> bool" where
  "selected value m =
     (has_iterate_with_name m \<and> fst ` set value \<subseteq> PStr ` declared_names m)"

text \<open>
  The choice among more than one candidate as the claim words it, every entry of the
  candidate list counting: exactly one selected candidate is the result, none or several
  are an \<open>AmbiguousTypeError\<close> carrying the candidate list.
\<close>

definition claimed_choice :: "(pyval \<times> pyval) list \<Rightarrow> pytype list \<Rightarrow> pytype result" where
  "claimed_choice value models =
     (case filter (selected value) models of
        [m] \<Rightarrow> Inr m
      | _ \<Rightarrow> Inl (AmbiguousTypeError models))"

text \<open>
  The same choice with a type that is listed more than once counting once; the error
  still carries the candidate list as given.
\<close>

definition choice_among_types :: "(pyval \<times> pyval) list \<Rightarrow> pytype list \<Rightarrow> pytype result" where
  "choice_among_types value models =
     (case filter (selected value) (remdups models) of
        [m] \<Rightarrow> Inr m
      | _ \<Rightarrow> Inl (AmbiguousTypeError models))"

text \<open>
  No field of a candidate carries the empty string as its name override: the field
  constructor refuses such a name.
\<close>

definition valid_overrides :: "pytype list \<Rightarrow> bool" where
  "valid_overrides models =
     list_all (\<lambda>m. list_all (\<lambda>entry. snd entry \<noteq> Some []) (iterate_with_name m)) models"

text \<open>
  The round trip of the specification: serializing and parsing again gives a value equal
  to the one started from.
\<close>

definition round_trip :: "ext \<Rightarrow> field \<Rightarrow> pyval \<Rightarrow> bool" where
  "round_trip x f v =
     (case to_struct x f v of
        Inl e \<Rightarrow> False
      | Inr s \<Rightarrow> (case parse_value x f s of Inl e \<Rightarrow> False | Inr r \<Rightarrow> py_eq r v))"

text \<open>The value belongs to the field's accepted types.\<close>

definition accepted :: "field \<Rightarrow> pyval \<Rightarrow> bool" where
  "accepted f v =
     (case types (cfg f) of None \<Rightarrow> False | Some ts \<Rightarrow> isinstance v ts = Inr True)"



section \<open>An example environment\<close>

text \<open>
  A small stand-in for the collaborators, used to run the definitions on concrete
  inputs: one module \<open>shop.models\<close> with two model classes, instances built from their
  keyword arguments, and ISO 8601 renderings and parsing of dates and of datetimes with
  whole seconds.
\<close>

definition Car :: pytype where
  "Car = TModel ''Car'' [(''brand'', None), (''registration'', Some ''plate'')]"

definition Toy :: pytype where
  "Toy = TModel ''Toy'' [(''name'', None)]"

definition digit_char :: "nat \<Rightarrow> char" where
  "digit_char n = char_of (48 + n mod 10)"

definition pad2 :: "nat \<Rightarrow> string" where
  "pad2 n = [digit_char (n div 10), digit_char n]"

definition pad4 :: "nat \<Rightarrow> string" where
  "pad4 n = [digit_char (n div 1000), digit_char (n div 100), digit_char (n div 10), digit_char n]"

definition iso_date :: "pydate \<Rightarrow> string" where
  "iso_date d = pad4 (year d) @ ''-'' @ pad2 (month d) @ ''-'' @ pad2 (day d)"

definition iso_time :: "pytime \<Rightarrow> string" where
  "iso_time t = pad2 (hour t) @ '':'' @ pad2 (minute t) @ '':'' @ pad2 (second t)"

definition example_isoformat :: "pyval \<Rightarrow> string" where
  "example_isoformat v =
     (case v of
        PDate d \<Rightarrow> iso_date d
      | PTime t \<Rightarrow> iso_time t
      | PDateTime d t \<Rightarrow> iso_date d @ ''T'' @ iso_time t
      | _ \<Rightarrow> [])"

text \<open>\<open>%Y\<close> prints the year without padding, \<open>%m\<close> and \<open>%d\<close> with two digits.\<close>

fun decimal :: "nat \<Rightarrow> string" where
  "decimal n = (if n < 10 then [digit_char n] else decimal (n div 10) @ [digit_char n])"

definition ymd :: "pydate \<Rightarrow> string" where
  "ymd d = decimal (year d) @ ''-'' @ pad2 (month d) @ ''-'' @ pad2 (day d)"

definition example_strftime :: "pyval \<Rightarrow> string \<Rightarrow> string" where
  "example_strftime v fmt =
     (case v of
        PDate d \<Rightarrow> if fmt = ''%Y-%m-%d'' then ymd d else fmt
      | PDateTime d t \<Rightarrow> if fmt = ''%Y-%m-%d'' then ymd d else fmt
      | _ \<Rightarrow> fmt)"

definition read_nat :: "string \<Rightarrow> nat option" where
  "read_nat s =
     (if s \<noteq> [] \<and> list_all is_digit s
      then Some (foldl (\<lambda>n c. 10 * n + (of_char c - 48)) 0 s) else None)"

definition read_date :: "string \<Rightarrow> pydate option" where
  "read_date s =
     (if length s = 10 \<and> s ! 4 = CHR ''-'' \<and> s ! 7 = CHR ''-'' then
        (case (read_nat (take 4 s), read_nat (take 2 (drop 5 s)), read_nat (drop 8 s)) of
           (Some y, Some m, Some d) \<Rightarrow> Some (Date y m d)
         | _ \<Rightarrow> None)
      else None)"

definition read_time :: "string \<Rightarrow> pytime option" where
  "read_time s =
     (if length s = 8 \<and> s ! 2 = CHR '':'' \<and> s ! 5 = CHR '':'' then
        (case (read_nat (take 2 s), read_nat (take 2 (drop 3 s)), read_nat (drop 6 s)) of
           (Some h, Some m, Some sec) \<Rightarrow> Some (Time h m sec 0)
         | _ \<Rightarrow> None)
      else None)"

text \<open>
  The parser reads a date (midnight of that day), a date and a time, or a time alone,
  which it puts on the current day.
\<close>

definition example_today :: pydate where
  "example_today = Date 2024 5 17"

definition example_parse :: "pyval \<Rightarrow> (pydate \<times> pytime) result" where
  "example_parse v =
     (case v of
        PStr s \<Rightarrow>
          (if length s = 10 then
             (case read_date s of None \<Rightarrow> Inl ValueError | Some d \<Rightarrow> Inr (d, Time 0 0 0 0))
           else if length s = 19 \<and> s ! 10 = CHR ''T'' then
             (case (read_date (take 10 s), read_time (drop 11 s)) of
                (Some d, Some t) \<Rightarrow> Inr (d, t)
              | _ \<Rightarrow> Inl ValueError)
           else if length s = 8 then
             (case read_time s of None \<Rightarrow> Inl ValueError | Some t \<Rightarrow> Inr (example_today, t))
           else Inl ValueError)
      | _ \<Rightarrow> Inl TypeError)"

text \<open>
  Modelled from the spec: the model base type (jsonmodels/models.py, not among the
  sources) constructs an instance from keyword arguments. Each declared field takes the
  argument given under its attribute name or, failing that, under its wire name, and is
  stored under the attribute name; arguments that name no declared field are dropped; a
  key that is not a string is a \<open>TypeError\<close>, and so is the call of anything that is not
  a model class. The values are stored as given.
\<close>

fun lookup_kwarg :: "(pyval \<times> pyval) list \<Rightarrow> string \<Rightarrow> pyval option" where
  "lookup_kwarg [] n = None"
| "lookup_kwarg ((k, v) # kvs) n = (if k = PStr n then Some v else lookup_kwarg kvs n)"

fun populate :: "(string \<times> string option) list \<Rightarrow> (pyval \<times> pyval) list \<Rightarrow> (string \<times> pyval) list" where
  "populate [] kvs = []"
| "populate ((attr, override) # registry) kvs =
     (case lookup_kwarg kvs attr of
        Some v \<Rightarrow> (attr, v) # populate registry kvs
      | None \<Rightarrow>
          (case lookup_kwarg kvs (declared_name (attr, override)) of
             Some v \<Rightarrow> (attr, v) # populate registry kvs
           | None \<Rightarrow> populate registry kvs))"

definition string_keys :: "(pyval \<times> pyval) list \<Rightarrow> bool" where
  "string_keys kvs = list_all (\<lambda>k. case k of PStr _ \<Rightarrow> True | _ \<Rightarrow> False) (map fst kvs)"

definition example_construct :: "pytype \<Rightarrow> (pyval \<times> pyval) list \<Rightarrow> pyval result" where
  "example_construct t kvs =
     (case t of
        TModel n registry \<Rightarrow>
          if string_keys kvs then Inr (PObj t (populate registry kvs)) else Inl TypeError
      | _ \<Rightarrow> Inl TypeError)"

definition example_ext :: ext where
  "example_ext =
     \<lparr>sys_modules =
        (\<lambda>m. if m = ''shop.models''
              then Some (\<lambda>n. if n = ''Car'' then Some Car
                              else if n = ''Toy'' then Some Toy else None)
              else None),
      construct = example_construct,
      obj_validate = (\<lambda>v. Inr ()),
      obj_to_struct = (\<lambda>v. case v of PObj t attrs \<Rightarrow> Inr (PDict (map (\<lambda>(a, w). (PStr a, w)) attrs))
                              | _ \<Rightarrow> Inl AttributeError),
      obj_iter = (\<lambda>v. Inl TypeError),
      du_parse = example_parse,
      isoformat = example_isoformat,
      strftime = example_strftime\<rparr>"

definition example_cfg :: cfg where
  "example_cfg =
     \<lparr>types = None, required = False, nullable = False, validators = [], name = None,
      default_value = None, memory = Map.empty\<rparr>"

definition someone :: inst where
  "someone = \<lparr>cache_key = 7, owner_module = ''shop.models''\<rparr>"

definition age_field :: field where
  "age_field =
     Field (example_cfg\<lparr>types := Some [TInt], required := True,
              validators := [Min 18 False, Max 30 True]\<rparr>) IntK"


definition label_field :: field where
  "label_field = Field (example_cfg\<lparr>types := Some [TStr]\<rparr>) StringK"

definition tags_field :: field where
  "tags_field =
     Field (example_cfg\<lparr>types := Some [TDict], required := True\<rparr>)
       (MapK label_field label_field)"

definition notes_field :: field where
  "notes_field = Field (example_cfg\<lparr>types := Some [TList, TTuple]\<rparr>) (ListK [] [] False)"

definition vehicle_field :: field where
  "vehicle_field = Field (example_cfg\<lparr>types := Some [Car, Toy]\<rparr>) EmbeddedK"

definition toy_field :: field where
  "toy_field = Field (example_cfg\<lparr>types := Some [Toy]\<rparr>) EmbeddedK"




section \<open>Verified properties\<close>

subsection \<open>Lazy type resolution\<close>

lemma length_lstrip_dot: "length s = leading_dots s + length (lstrip_dot s)"
proof -
  have "length (takeWhile (\<lambda>c. c = CHR ''.'') s) + length (dropWhile (\<lambda>c. c = CHR ''.'') s)
      = length s"
    by (metis length_append takeWhile_dropWhile_id)
  then show ?thesis by (simp add: leading_dots_def lstrip_dot_def)
qed

lemma startswith_dot_iff: "startswith_dot s \<longleftrightarrow> 0 < leading_dots s"
  by (cases s) (simp_all add: startswith_dot_def leading_dots_def)

lemma slice_to_neg:
  "0 < p \<Longrightarrow> p \<le> length xs \<Longrightarrow> slice_to xs (- int p) = take (length xs - p) xs"
  by (simp add: slice_to_def nat_diff_distrib' of_nat_diff)

text \<open>
  Away from the single leading dot the code resolves a path exactly as the specification
  words it: absolute paths, two or more dots, and the error for too many levels.
\<close>

lemma get_modules_agrees:
  "leading_dots s \<noteq> 1 \<Longrightarrow> get_modules s b = spec_modules s b"
proof (cases "leading_dots s = 0")
  case True
  then show ?thesis
    by (simp add: get_modules_def spec_modules_def startswith_dot_iff Let_def)
next
  case False
  assume "leading_dots s \<noteq> 1"
  with False obtain p where p: "leading_dots s = Suc p" "0 < p"
    by (cases "leading_dots s") auto
  have diff: "int (length s) - int (length (lstrip_dot s)) = int (Suc p)"
    using length_lstrip_dot [of s] p by simp
  show ?thesis
  proof (cases "p > length (split_dot b)")
    case True
    then show ?thesis using p diff
      by (simp add: get_modules_def spec_modules_def startswith_dot_iff Let_def)
  next
    case False
    then have "slice_to (split_dot b) (- int p) = take (length (split_dot b) - p) (split_dot b)"
      using p by (intro slice_to_neg) simp_all
    then show ?thesis using p diff False
      by (simp add: get_modules_def spec_modules_def startswith_dot_iff Let_def)
  qed
qed

lemma get_modules_agrees_example:
  "leading_dots ''..other.Type'' \<noteq> 1
   \<and> get_modules ''..other.Type'' ''pkg.mod'' = Inr [''pkg'', ''other'', ''Type'']
   \<and> spec_modules ''..other.Type'' ''pkg.mod'' = Inr [''pkg'', ''other'', ''Type'']"
  by (simp add: get_modules_def spec_modules_def lstrip_dot_def startswith_dot_def
      slice_to_def leading_dots_def)

text \<open>
  Claim C5. A dotted path is resolved against the declaring namespace: no leading dot is
  an absolute path, \<open>n\<close> leading dots strip \<open>n - 1\<close> trailing segments of the declaring
  namespace before the remaining segments are appended, and more levels than segments is
  an error. With one leading dot and a remaining path of more than one segment the code
  drops the whole declaring namespace, since the slice \<open>parent_modules[:0 * -1]\<close> is
  empty: \<open>.sub.Type\<close> declared in \<open>pkg.mod\<close> resolves to the absolute module \<open>sub\<close>, where
  the claim gives \<open>pkg.mod.sub\<close>.
\<close>

theorem get_modules_single_dot:
  "get_modules ''.sub.Type'' ''pkg.mod'' = Inr [''sub'', ''Type'']
   \<and> spec_modules ''.sub.Type'' ''pkg.mod'' = Inr [''pkg'', ''mod'', ''sub'', ''Type'']
   \<and> evaluate_path ''.sub.Type'' ''pkg.mod'' = Inr (''sub'', ''Type'')"
  by (simp add: get_modules_def spec_modules_def evaluate_path_def lstrip_dot_def
      startswith_dot_def slice_to_def leading_dots_def)

subsection \<open>The validation pipeline\<close>








subsection \<open>The descriptor\<close>

text \<open>Lazy initialization never touches the value store.\<close>

lemma finish_initialization_memory:
  "memory (cfg (snd (finish_initialization x owner f))) = memory (cfg f)"
  by (cases "(x, owner, f)" rule: finish_initialization.cases)
     (auto split: sum.splits option.splits prod.splits)

lemma store_memory: "memory (cfg (store f k v)) = (memory (cfg f))(k \<mapsto> v)"
  by (simp add: store_def)

text \<open>
  Claim C2. \<open>set(instance, raw)\<close> resolves the field's lazy references, computes
  \<open>parsed = parse_value(raw)\<close> and runs \<open>validate(parsed)\<close>. When any of the three
  raises, the error is the outcome of the call and the field's value store is what it
  was before; only when all succeed is \<open>parsed\<close> stored under the instance's key.
\<close>

theorem set_stores_only_on_success:
  "(\<forall>e f'. finish_initialization x (owner_module obj) f = (Some e, f') \<longrightarrow>
        fst (field_set x f obj raw) = Inl e
        \<and> memory (cfg (snd (field_set x f obj raw))) = memory (cfg f))
   \<and> (\<forall>f'. finish_initialization x (owner_module obj) f = (None, f') \<longrightarrow>
      (\<forall>e. parse_value x f' raw = Inl e \<longrightarrow>
          fst (field_set x f obj raw) = Inl e
          \<and> memory (cfg (snd (field_set x f obj raw))) = memory (cfg f))
      \<and> (\<forall>parsed e. parse_value x f' raw = Inr parsed \<and> validate x f' parsed = Inl e \<longrightarrow>
          fst (field_set x f obj raw) = Inl e
          \<and> memory (cfg (snd (field_set x f obj raw))) = memory (cfg f))
      \<and> (\<forall>parsed. parse_value x f' raw = Inr parsed \<and> validate x f' parsed = Inr () \<longrightarrow>
          fst (field_set x f obj raw) = Inr ()
          \<and> memory (cfg (snd (field_set x f obj raw)))
              = (memory (cfg f))(cache_key obj \<mapsto> parsed)))"
proof (intro conjI allI impI)
  fix e f'
  assume fin: "finish_initialization x (owner_module obj) f = (Some e, f')"
  then show "fst (field_set x f obj raw) = Inl e" by (simp add: field_set_def)
  show "memory (cfg (snd (field_set x f obj raw))) = memory (cfg f)"
    using fin finish_initialization_memory [of x "owner_module obj" f]
    by (simp add: field_set_def)
next
  fix f' e
  assume fin: "finish_initialization x (owner_module obj) f = (None, f')"
    and p: "parse_value x f' raw = Inl e"
  then show "fst (field_set x f obj raw) = Inl e" by (simp add: field_set_def)
  show "memory (cfg (snd (field_set x f obj raw))) = memory (cfg f)"
    using fin p finish_initialization_memory [of x "owner_module obj" f]
    by (simp add: field_set_def)
next
  fix f' parsed e
  assume fin: "finish_initialization x (owner_module obj) f = (None, f')"
    and p: "parse_value x f' raw = Inr parsed \<and> validate x f' parsed = Inl e"
  then show "fst (field_set x f obj raw) = Inl e" by (simp add: field_set_def)
  show "memory (cfg (snd (field_set x f obj raw))) = memory (cfg f)"
    using fin p finish_initialization_memory [of x "owner_module obj" f]
    by (simp add: field_set_def)
next
  fix f' parsed
  assume fin: "finish_initialization x (owner_module obj) f = (None, f')"
    and p: "parse_value x f' raw = Inr parsed \<and> validate x f' parsed = Inr ()"
  then show "fst (field_set x f obj raw) = Inr ()" by (simp add: field_set_def)
  show "memory (cfg (snd (field_set x f obj raw))) = (memory (cfg f))(cache_key obj \<mapsto> parsed)"
    using fin p finish_initialization_memory [of x "owner_module obj" f]
    by (simp add: field_set_def store_memory)
qed

lemma age_finish: "finish_initialization example_ext (owner_module someone) age_field = (None, age_field)"
  by (simp add: age_field_def)

lemma age_parse:
  "parse_value example_ext age_field (PStr ''abc'') = Inl (BadTypeError (PStr ''abc'') (Some [TInt]) False)"
  "parse_value example_ext age_field (PStr ''30'') = Inr (PInt 30)"
  "parse_value example_ext age_field (PStr ''25'') = Inr (PInt 25)"
  by (simp_all add: age_field_def IntField_parse_value_def py_int_def int_of_string_def max_str_digits_def
      strip_def is_space_def is_digit_def digit_val_def)

lemma age_validate:
  "validate example_ext age_field (PInt 30) = Inl (MaxValidationError (PInt 30) 30 True)"
  "validate example_ext age_field (PInt 25) = Inr ()"
  by (simp_all add: age_field_def example_cfg_def BaseField_validate_def check_types_def
      validate_against_types_def check_against_required_def
      validate_with_custom_validators_def is_class_def instance_of_def
      run_validator_def Min_def Max_def Min_validate_def Max_validate_def
      py_lt_int_def py_gt_int_def py_eq_def is_number_def num_of_def)

theorem set_stores_only_on_success_witness:
  "fst (field_set example_ext age_field someone (PStr ''abc''))
      = Inl (BadTypeError (PStr ''abc'') (Some [TInt]) False)
   \<and> memory (cfg (snd (field_set example_ext age_field someone (PStr ''abc'')))) = Map.empty
   \<and> fst (field_set example_ext age_field someone (PStr ''30''))
      = Inl (MaxValidationError (PInt 30) 30 True)
   \<and> memory (cfg (snd (field_set example_ext age_field someone (PStr ''30'')))) = Map.empty
   \<and> fst (field_set example_ext age_field someone (PStr ''25'')) = Inr ()
   \<and> memory (cfg (snd (field_set example_ext age_field someone (PStr ''25''))))
      = [7 \<mapsto> PInt 25]"
proof -
  have m: "memory (cfg age_field) = Map.empty" "cache_key someone = 7"
    by (simp_all add: age_field_def example_cfg_def someone_def)
  show ?thesis
    using set_stores_only_on_success [of example_ext someone age_field "PStr ''abc''"]
      set_stores_only_on_success [of example_ext someone age_field "PStr ''30''"]
      set_stores_only_on_success [of example_ext someone age_field "PStr ''25''"]
      age_finish age_parse age_validate m
    by simp
qed

subsection \<open>Integer coercion\<close>

text \<open>
  What \<open>IntField.parse_value\<close> can raise: the \<open>ValueError\<close> of \<open>int\<close> is turned into a
  \<open>BadTypeError\<close>, so it never surfaces; the \<open>TypeError\<close> and \<open>OverflowError\<close> of \<open>int\<close>
  pass through the handler.
\<close>

lemma py_int_errors:
  "py_int v = Inl e \<Longrightarrow> e = ValueError \<or> e = TypeError \<or> e = OverflowError"
  by (auto simp: py_int_def float_int_def split: pyval.splits pyfloat.splits option.splits)

lemma IntField_parse_value_errors:
  "IntField_parse_value v = Inl e \<Longrightarrow>
     e = BadTypeError v (Some [TInt]) False \<or> e = TypeError \<or> e = OverflowError"
  using py_int_errors [of v]
  by (auto simp: IntField_parse_value_def split: if_splits sum.splits)

lemma IntField_parse_value_results:
  "IntField_parse_value v = Inr r \<Longrightarrow> (v = PNone \<and> r = PNone) \<or> (\<exists>i. r = PInt i)"
  by (auto simp: IntField_parse_value_def split: if_splits sum.splits)

text \<open>
  Claim C6. \<open>IntField.parse_value\<close> returns the value cast to an integer and turns every
  cast failure into a \<open>BadTypeError\<close>. The handler catches \<open>ValueError\<close> only: a list
  (or any value \<open>int\<close> rejects by its type) raises the native \<open>TypeError\<close>, and an
  infinite float the native \<open>OverflowError\<close>; only a failure such as a non-numeric
  string becomes a \<open>BadTypeError\<close>.
\<close>

theorem int_parse_native_errors:
  "parse_value example_ext age_field (PList [PInt 1]) = Inl TypeError
   \<and> parse_value example_ext age_field (PFloat (FInf True)) = Inl OverflowError
   \<and> parse_value example_ext age_field (PStr ''abc'')
       = Inl (BadTypeError (PStr ''abc'') (Some [TInt]) False)
   \<and> parse_value example_ext age_field (PStr ''42'') = Inr (PInt 42)
   \<and> parse_value example_ext age_field PNone = Inr PNone"
  by (simp add: age_field_def IntField_parse_value_def py_int_def float_int_def
      int_of_string_def max_str_digits_def strip_def is_space_def is_digit_def digit_val_def)

subsection \<open>Defaults of map and list fields\<close>

text \<open>
  Claim C7. A map field with no configured default has the empty mapping as its default
  exactly when it is required; a map field that is not required has the configured
  default, which is null when none was configured.
\<close>

theorem map_default_value:
  "kind f = MapK key_field value_field \<longrightarrow>
     (\<not> has_default f \<longrightarrow>
        (get_default_value f = PDict [] \<longleftrightarrow> required (cfg f))
        \<and> (\<not> required (cfg f) \<longrightarrow> get_default_value f = PNone))
     \<and> (\<not> required (cfg f) \<longrightarrow> get_default_value f = BaseField_get_default_value f)"
  by (auto simp: get_default_value_def BaseField_get_default_value_def Let_def)

lemma tags_field_init:
  "MapField_init label_field label_field True False NoValidators None None = Inr tags_field"
  "MapField_init label_field label_field False False NoValidators None None
     = Inr (Field (example_cfg\<lparr>types := Some [TDict]\<rparr>) (MapK label_field label_field))"
  by (simp_all add: MapField_init_def tags_field_def example_cfg_def validate_name_def
      assign_validators_def)

theorem map_default_value_witness:
  "kind tags_field = MapK label_field label_field \<and> \<not> has_default tags_field
   \<and> required (cfg tags_field) \<and> get_default_value tags_field = PDict []
   \<and> \<not> required (cfg (Field (example_cfg\<lparr>types := Some [TDict]\<rparr>) (MapK label_field label_field)))
   \<and> get_default_value (Field (example_cfg\<lparr>types := Some [TDict]\<rparr>) (MapK label_field label_field))
       = PNone"
  using map_default_value [of tags_field label_field label_field]
    map_default_value [of "Field (example_cfg\<lparr>types := Some [TDict]\<rparr>) (MapK label_field label_field)"
      label_field label_field]
  by (simp add: tags_field_def example_cfg_def has_default_def)

text \<open>Neither lazy initialization nor a store changes the \<open>required\<close> flag.\<close>

lemma finish_initialization_required:
  "required (cfg (snd (finish_initialization x owner f))) = required (cfg f)"
  by (cases "(x, owner, f)" rule: finish_initialization.cases)
     (auto split: sum.splits option.splits prod.splits)

lemma field_set_required:
  "required (cfg (snd (field_set x f obj raw))) = required (cfg f)"
  using finish_initialization_required [of x "owner_module obj" f]
  by (auto simp: field_set_def store_def split: prod.splits option.splits sum.splits)

lemma ListField_init_required:
  "ListField_init x items ivs oe req nul vals dflt nm = Inr f \<Longrightarrow> \<not> required (cfg f)"
  by (auto simp: ListField_init_def clear_required_def split: sum.splits)

lemma DerivedListField_init_required:
  "DerivedListField_init x inner oe req nul vals dflt nm = Inr f \<Longrightarrow> \<not> required (cfg f)"
  by (auto simp: DerivedListField_init_def clear_required_def split: sum.splits)

text \<open>
  Claim C8. Whatever \<open>required\<close> argument its constructor is given, a list field (plain
  or field-typed) has the flag cleared once constructed, the flag stays cleared through
  every \<open>set\<close>, and the field's required-ness check raises for no value.
\<close>

theorem list_field_never_required:
  "(ListField_init x items ivs oe req nul vals dflt nm = Inr f
      \<or> DerivedListField_init x inner oe req nul vals dflt nm = Inr f) \<longrightarrow>
     \<not> required (cfg f)
     \<and> \<not> required (cfg (snd (field_set x f obj raw)))
     \<and> check_against_required f v = Inr ()
     \<and> check_against_required (snd (field_set x f obj raw)) v = Inr ()"
  using ListField_init_required [of x items ivs oe req nul vals dflt nm f]
    DerivedListField_init_required [of x inner oe req nul vals dflt nm f]
    field_set_required [of x f obj raw]
  by (auto simp: check_against_required_def)

lemma notes_field_init:
  "ListField_init example_ext NoItems NoValidators False True False NoValidators None None
     = Inr notes_field"
  by (simp add: ListField_init_def BaseField_init_def validate_name_def assign_types_def
      assign_validators_def clear_required_def notes_field_def example_cfg_def)

theorem list_field_never_required_witness:
  "ListField_init example_ext NoItems NoValidators False True False NoValidators None None
     = Inr notes_field
   \<and> \<not> required (cfg notes_field)
   \<and> check_against_required notes_field PNone = Inr ()
   \<and> \<not> required (cfg (snd (field_set example_ext notes_field someone PNone)))"
  using list_field_never_required [of example_ext NoItems NoValidators False True False
      NoValidators None None notes_field label_field someone PNone PNone]
    notes_field_init
  by simp

text \<open>
  Inside the constructor the flag is still the argument while the default is validated:
  a required list field with the default \<open>None\<close> is refused at construction.
\<close>

lemma list_field_required_default_none:
  "ListField_init example_ext NoItems NoValidators False True False NoValidators (Some PNone) None
     = Inl RequiredFieldError"
  by (simp add: ListField_init_def BaseField_init_def validate_name_def assign_types_def
      assign_validators_def BaseField_validate_def check_types_def
      validate_against_types_def check_against_required_def)

subsection \<open>List fields without item types\<close>

lemma isinstance_Nil: "isinstance v [] = Inr False"
  by simp

lemma cast_value_no_types:
  "cast_value x [] v = Inl (case v of PDict kvs \<Rightarrow> IndexError | _ \<Rightarrow> BadTypeError v (Some []) True)"
  by (cases v) (simp_all add: cast_value_def get_embed_type_def)

text \<open>
  Claim C10. On a list field with no item types, \<open>parse_value\<close> of a non-empty list
  fails, each element being refused by \<open>_cast_value\<close>: an element that is not a dict with
  a \<open>BadTypeError\<close> in list context carrying the empty type tuple, a dict with the
  \<open>IndexError\<close> of \<open>models[0]\<close> on the empty candidate tuple. The same field's
  \<open>validate_single_value\<close> runs the item validators and no type check.
\<close>

theorem untyped_list_rejects_every_item:
  "kind f = ListK [] item_validators omit_empty \<longrightarrow>
     (\<forall>v. cast_value x [] v
            = Inl (case v of PDict kvs \<Rightarrow> IndexError | _ \<Rightarrow> BadTypeError v (Some []) True))
     \<and> parse_value x f (PList (v # vs))
         = Inl (case v of PDict kvs \<Rightarrow> IndexError | _ \<Rightarrow> BadTypeError v (Some []) True)
     \<and> ListField_validate_single_value [] item_validators v = run_validators item_validators v"
proof
  assume k: "kind f = ListK [] item_validators omit_empty"
  then obtain c where f: "f = Field c (ListK [] item_validators omit_empty)"
    by (cases f) simp
  have "parse_value x f (PList (v # vs))
      = Inl (case v of PDict kvs \<Rightarrow> IndexError | _ \<Rightarrow> BadTypeError v (Some []) True)"
    unfolding f by (simp add: ListField_parse_value_def cast_value_no_types)
  moreover have "ListField_validate_single_value [] item_validators v
      = run_validators item_validators v"
    by (simp add: ListField_validate_single_value_def split: sum.splits)
  ultimately show "(\<forall>v. cast_value x [] v
            = Inl (case v of PDict kvs \<Rightarrow> IndexError | _ \<Rightarrow> BadTypeError v (Some []) True))
     \<and> parse_value x f (PList (v # vs))
         = Inl (case v of PDict kvs \<Rightarrow> IndexError | _ \<Rightarrow> BadTypeError v (Some []) True)
     \<and> ListField_validate_single_value [] item_validators v = run_validators item_validators v"
    using cast_value_no_types by blast
qed

theorem untyped_list_rejects_every_item_witness:
  "kind notes_field = ListK [] [] False
   \<and> parse_value example_ext notes_field (PList [PInt 1, PStr ''a''])
       = Inl (BadTypeError (PInt 1) (Some []) True)
   \<and> parse_value example_ext notes_field (PList [PDict [(PStr ''name'', PStr ''a'')]])
       = Inl IndexError
   \<and> validate example_ext notes_field (PList [PInt 1, PStr ''a'']) = Inr ()"
proof -
  have k: "kind notes_field = ListK [] [] False" by (simp add: notes_field_def)
  have v: "validate example_ext notes_field (PList [PInt 1, PStr ''a'']) = Inr ()"
    using untyped_list_rejects_every_item [of notes_field "[]" False example_ext "PInt 1" "[]"]
      untyped_list_rejects_every_item [of notes_field "[]" False example_ext "PStr ''a''" "[]"] k
    by (simp add: notes_field_def example_cfg_def BaseField_validate_def check_types_def
        validate_against_types_def check_against_required_def
        validate_with_custom_validators_def is_class_def instance_of_def iterate_def)
  show ?thesis
    using untyped_list_rejects_every_item [of notes_field "[]" False example_ext "PInt 1"
        "[PStr ''a'']"]
      untyped_list_rejects_every_item [of notes_field "[]" False example_ext
        "PDict [(PStr ''name'', PStr ''a'')]" "[]"] k v
    by simp
qed

subsection \<open>Polymorphic resolution\<close>

lemma assoc_set_keys:
  "map fst (assoc_set d k v) = (if k \<in> fst ` set d then map fst d else map fst d @ [k])"
proof (induction d)
  case Nil
  show ?case by simp
next
  case (Cons p d)
  obtain k' v' where p: "p = (k', v')" by (cases p)
  show ?case
  proof (cases "k' = k")
    case True
    then show ?thesis by (simp add: p)
  next
    case False
    then show ?thesis using Cons.IH by (simp add: p)
  qed
qed

lemma assoc_set_entries:
  "p \<in> set (assoc_set d k v) \<Longrightarrow> p \<in> set d \<or> p = (k, v)"
proof (induction d)
  case Nil
  then show ?case by simp
next
  case (Cons q d)
  obtain k' v' where q: "q = (k', v')" by (cases q)
  show ?case
  proof (cases "k' = k")
    case True
    with Cons.prems show ?thesis by (simp add: q) blast
  next
    case False
    with Cons.prems have "p = (k', v') \<or> p \<in> set (assoc_set d k v)" by (simp add: q)
    with Cons.IH show ?thesis by (simp add: q) blast
  qed
qed

text \<open>
  The dict of the comprehension has each model exposing a registry once, in order of
  first appearance, with its wire names.
\<close>

lemma foldl_assoc_set_distinct:
  "distinct (map fst d) \<Longrightarrow>
     distinct (map fst (foldl (\<lambda>d m. assoc_set d m (wire_names m)) d ms))"
proof (induction ms arbitrary: d)
  case Nil
  then show ?case by simp
next
  case (Cons a ms)
  have "distinct (map fst (assoc_set d a (wire_names a)))"
    using Cons.prems by (simp add: assoc_set_keys)
  from Cons.IH [OF this] show ?case by simp
qed

lemma foldl_assoc_set_keys:
  "fst ` set (foldl (\<lambda>d m. assoc_set d m (wire_names m)) d ms) = fst ` set d \<union> set ms"
proof (induction ms arbitrary: d)
  case Nil
  show ?case by simp
next
  case (Cons a ms)
  have "set (map fst (assoc_set d a (wire_names a))) = fst ` set d \<union> {a}"
    unfolding assoc_set_keys by auto
  then have "fst ` set (assoc_set d a (wire_names a)) = fst ` set d \<union> {a}"
    by simp
  with Cons.IH [of "assoc_set d a (wire_names a)"] show ?case by auto
qed

lemma foldl_assoc_set_values:
  "(\<And>p. p \<in> set d \<Longrightarrow> snd p = wire_names (fst p)) \<Longrightarrow>
     p \<in> set (foldl (\<lambda>d m. assoc_set d m (wire_names m)) d ms) \<Longrightarrow>
     snd p = wire_names (fst p)"
proof (induction ms arbitrary: d)
  case Nil
  then show ?case by simp
next
  case (Cons a ms)
  have "snd q = wire_names (fst q)" if "q \<in> set (assoc_set d a (wire_names a))" for q
    using assoc_set_entries [OF that] Cons.prems(1) [of q] by auto
  from Cons.IH [OF this] Cons.prems(2) show ?case by simp
qed

lemma model_fields_distinct: "distinct (map fst (model_fields models))"
  unfolding model_fields_def by (rule foldl_assoc_set_distinct) simp

lemma model_fields_keys:
  "fst ` set (model_fields models) = {m \<in> set models. has_iterate_with_name m}"
  unfolding model_fields_def foldl_assoc_set_keys by auto

lemma model_fields_values:
  "p \<in> set (model_fields models) \<Longrightarrow> snd p = wire_names (fst p)"
  unfolding model_fields_def by (rule foldl_assoc_set_values [of "[]"]) simp_all

text \<open>
  The name set the code computes is the specification's: \<open>name or attr\<close> is the override
  when one is set, and the attribute name otherwise.
\<close>

lemma name_or_attr_declared:
  "snd entry \<noteq> Some [] \<Longrightarrow> name_or_attr entry = declared_name entry"
  by (cases entry; cases "snd entry") (auto simp: name_or_attr_def declared_name_def)

lemma wire_names_declared:
  assumes "valid_overrides models" "m \<in> set models"
  shows "set (wire_names m) = declared_names m"
proof -
  have "\<forall>entry \<in> set (iterate_with_name m). snd entry \<noteq> Some []"
    using assms by (simp add: valid_overrides_def list_all_iff)
  then have "map name_or_attr (iterate_with_name m) = map declared_name (iterate_with_name m)"
    by (intro map_cong [OF refl]) (simp add: name_or_attr_declared)
  then show ?thesis by (simp add: wire_names_def declared_names_def)
qed

lemma issuperset_iff:
  "issuperset names value \<longleftrightarrow> fst ` set value \<subseteq> PStr ` set names"
proof -
  have "(case k of PStr s \<Rightarrow> s \<in> set names | _ \<Rightarrow> False) \<longleftrightarrow> k \<in> PStr ` set names" for k
    by (cases k) auto
  then show ?thesis by (auto simp: issuperset_def list_all_iff)
qed

lemma model_fields_entry:
  assumes "valid_overrides models" "p \<in> set (model_fields models)"
  shows "(case p of (model, names) \<Rightarrow> issuperset names value) = selected value (fst p)"
proof -
  have "fst p \<in> fst ` set (model_fields models)" using assms(2) by simp
  then have h: "has_iterate_with_name (fst p)" "fst p \<in> set models"
    unfolding model_fields_keys by simp_all
  have "snd p = wire_names (fst p)" using assms(2) by (rule model_fields_values)
  then have "issuperset (snd p) value \<longleftrightarrow> fst ` set value \<subseteq> PStr ` declared_names (fst p)"
    using wire_names_declared [OF assms(1) h(2)] by (simp add: issuperset_iff)
  with h(1) show ?thesis by (cases p) (simp add: selected_def)
qed

lemma matching_models_filter:
  assumes "valid_overrides models"
  shows "matching_models value models
    = filter (selected value) (map fst (model_fields models))"
proof -
  have "filter (\<lambda>(model, names). issuperset names value) (model_fields models)
      = filter (\<lambda>p. selected value (fst p)) (model_fields models)"
    by (rule filter_cong [OF refl]) (rule model_fields_entry [OF assms])
  then show ?thesis
    by (simp add: matching_models_def filter_map comp_def)
qed

lemma matching_models_distinct:
  "valid_overrides models \<Longrightarrow> distinct (matching_models value models)"
  by (simp add: matching_models_filter model_fields_distinct)

lemma matching_models_set:
  assumes "valid_overrides models"
  shows "set (matching_models value models) = {m \<in> set models. selected value m}"
proof -
  have "set (matching_models value models)
      = {m \<in> fst ` set (model_fields models). selected value m}"
    unfolding matching_models_filter [OF assms] by auto
  also have "\<dots> = {m \<in> set models. selected value m}"
    unfolding model_fields_keys by (auto simp: selected_def)
  finally show ?thesis .
qed

text \<open>Two duplicate-free lists with the same elements agree on being a singleton.\<close>

lemma singleton_choice:
  assumes "distinct as" "distinct bs" "set as = set bs"
  shows "(case bs of [m] \<Rightarrow> Inr m | _ \<Rightarrow> E) = (if length as \<noteq> 1 then E else Inr (hd as))"
proof -
  have len: "length as = length bs"
    using assms distinct_card [of as] distinct_card [of bs] by simp
  show ?thesis
  proof (cases "length as = 1")
    case True
    then obtain a where a: "as = [a]" by (cases as) auto
    from True len obtain b where b: "bs = [b]" by (cases bs) auto
    from assms(3) a b have "a = b" by simp
    then show ?thesis by (simp add: a b)
  next
    case False
    with len have "length bs \<noteq> 1" by simp
    then have "(case bs of [m] \<Rightarrow> Inr m | _ \<Rightarrow> E) = E"
      by (cases bs; cases "tl bs") auto
    with False show ?thesis by simp
  qed
qed

lemma get_embed_type_many:
  assumes "valid_overrides models" "length models > 1"
  shows "get_embed_type value models = choice_among_types value models"
proof -
  have "set (filter (selected value) (remdups models)) = set (matching_models value models)"
    by (auto simp: matching_models_set [OF assms(1)])
  then have "(case filter (selected value) (remdups models) of
               [m] \<Rightarrow> Inr m | _ \<Rightarrow> Inl (AmbiguousTypeError models))
      = (if length (matching_models value models) \<noteq> 1 then Inl (AmbiguousTypeError models)
         else Inr (hd (matching_models value models)))"
    by (intro singleton_choice) (simp_all add: matching_models_distinct [OF assms(1)])
  then show ?thesis using assms(2) by (simp add: get_embed_type_def choice_among_types_def)
qed

lemma get_embed_type_distinct:
  assumes "valid_overrides models" "length models > 1" "distinct models"
  shows "get_embed_type value models = claimed_choice value models"
  using get_embed_type_many [OF assms(1,2)] assms(3)
  by (simp add: choice_among_types_def claimed_choice_def distinct_remdups_id)

lemma get_embed_type_one: "get_embed_type value [m] = Inr m"
  by (simp add: get_embed_type_def)

text \<open>A field cannot be given the empty string as its name.\<close>

lemma empty_name_refused: "validate_name (Some []) = Inl ValueError"
  by (simp add: validate_name_def name_matches_def name_core_def)

text \<open>
  Claim C3, as the code has it. With exactly one candidate that candidate is taken and
  built from the payload, whatever the payload's keys. With more than one, a candidate
  is selected when it exposes a field registry and its wire names (the name override if
  set, else the attribute name) include every key of the payload; a type listed more
  than once counts once; the result is the one selected type, built from the payload,
  and \<open>AmbiguousTypeError\<close> with the whole candidate list when no type or more than one
  is selected. On a list of distinct candidates this is the choice of the claim. The
  embedded field's \<open>parse_value\<close> and the list field's \<open>_cast_value\<close> build the instance
  from the resolved type.
\<close>

theorem embed_type_resolution:
  "valid_overrides models \<longrightarrow>
     get_embed_type value [m] = Inr m
     \<and> (types (cfg f) = Some [m] \<and> kind f = EmbeddedK \<longrightarrow>
          parse_value x f (PDict value) = construct x m value)
     \<and> (length models > 1 \<longrightarrow> get_embed_type value models = choice_among_types value models)
     \<and> (length models > 1 \<and> distinct models \<longrightarrow>
          get_embed_type value models = claimed_choice value models)
     \<and> (types (cfg f) = Some models \<and> kind f = EmbeddedK \<longrightarrow>
          parse_value x f (PDict value)
            = (case get_embed_type value models of
                 Inl e \<Rightarrow> Inl e | Inr t \<Rightarrow> construct x t value))
     \<and> (isinstance (PDict value) models = Inr False \<longrightarrow>
          cast_value x models (PDict value)
            = (case get_embed_type value models of
                 Inl e \<Rightarrow> Inl e | Inr t \<Rightarrow> construct x t value))"
proof
  assume valid: "valid_overrides models"
  have p: "types (cfg f) = Some ms \<and> kind f = EmbeddedK \<longrightarrow>
        parse_value x f (PDict value)
          = (case get_embed_type value ms of
               Inl e \<Rightarrow> Inl e | Inr t \<Rightarrow> construct x t value)" for ms
    by (cases f) (auto simp: EmbeddedField_parse_value_def)
  have c: "isinstance (PDict value) models = Inr False \<longrightarrow>
        cast_value x models (PDict value)
          = (case get_embed_type value models of
               Inl e \<Rightarrow> Inl e | Inr t \<Rightarrow> construct x t value)"
    by (simp add: cast_value_def)
  have one: "types (cfg f) = Some [m] \<and> kind f = EmbeddedK \<longrightarrow>
        parse_value x f (PDict value) = construct x m value"
    using p [of "[m]"] by (simp add: get_embed_type_one)
  have many: "length models > 1 \<longrightarrow>
      get_embed_type value models = choice_among_types value models"
    using get_embed_type_many [OF valid] by blast
  have dist: "length models > 1 \<and> distinct models \<longrightarrow>
      get_embed_type value models = claimed_choice value models"
    using get_embed_type_distinct [OF valid] by blast
  from get_embed_type_one [of "value" m] one many dist p [of models] c
  show "get_embed_type value [m] = Inr m
     \<and> (types (cfg f) = Some [m] \<and> kind f = EmbeddedK \<longrightarrow>
          parse_value x f (PDict value) = construct x m value)
     \<and> (length models > 1 \<longrightarrow> get_embed_type value models = choice_among_types value models)
     \<and> (length models > 1 \<and> distinct models \<longrightarrow>
          get_embed_type value models = claimed_choice value models)
     \<and> (types (cfg f) = Some models \<and> kind f = EmbeddedK \<longrightarrow>
          parse_value x f (PDict value)
            = (case get_embed_type value models of
                 Inl e \<Rightarrow> Inl e | Inr t \<Rightarrow> construct x t value))
     \<and> (isinstance (PDict value) models = Inr False \<longrightarrow>
          cast_value x models (PDict value)
            = (case get_embed_type value models of
                 Inl e \<Rightarrow> Inl e | Inr t \<Rightarrow> construct x t value))"
    by (intro conjI)
qed

lemma example_models:
  "valid_overrides [Car, Toy]" "distinct [Car, Toy]" "length [Car, Toy] > 1"
  by (simp_all add: valid_overrides_def iterate_with_name_def Car_def Toy_def)

lemma example_names:
  "declared_names Car = {''brand'', ''plate''}" "declared_names Toy = {''name''}"
  "has_iterate_with_name Car" "has_iterate_with_name Toy"
  by (simp_all add: declared_names_def declared_name_def iterate_with_name_def
      has_iterate_with_name_def Car_def Toy_def)

lemma example_selected:
  "selected [(PStr ''brand'', PStr ''X'')] Car" "\<not> selected [(PStr ''brand'', PStr ''X'')] Toy"
  "selected [(PStr ''plate'', PStr ''X'')] Car" "\<not> selected [(PStr ''plate'', PStr ''X'')] Toy"
  "\<not> selected [(PStr ''registration'', PStr ''X'')] Car"
  "\<not> selected [(PStr ''registration'', PStr ''X'')] Toy"
  "\<not> selected [(PStr ''name'', PStr ''X'')] Car" "selected [(PStr ''name'', PStr ''X'')] Toy"
  "selected [] Car" "selected [] Toy"
  by (simp_all add: selected_def example_names image_iff)

theorem embed_type_resolution_witness:
  "valid_overrides [Car, Toy] \<and> length [Car, Toy] > 1 \<and> distinct [Car, Toy]
   \<and> get_embed_type [(PStr ''brand'', PStr ''X'')] [Car, Toy] = Inr Car
   \<and> get_embed_type [(PStr ''plate'', PStr ''X'')] [Car, Toy] = Inr Car
   \<and> get_embed_type [(PStr ''registration'', PStr ''X'')] [Car, Toy]
       = Inl (AmbiguousTypeError [Car, Toy])
   \<and> get_embed_type [(PStr ''name'', PStr ''X'')] [Car, Toy] = Inr Toy
   \<and> get_embed_type [] [Car, Toy] = Inl (AmbiguousTypeError [Car, Toy])
   \<and> parse_value example_ext vehicle_field (PDict [(PStr ''brand'', PStr ''X'')])
       = construct example_ext Car [(PStr ''brand'', PStr ''X'')]
   \<and> parse_value example_ext toy_field (PDict [(PStr ''plate'', PStr ''X'')])
       = construct example_ext Toy [(PStr ''plate'', PStr ''X'')]"
proof -
  have k: "types (cfg vehicle_field) = Some [Car, Toy]" "kind vehicle_field = EmbeddedK"
    "types (cfg toy_field) = Some [Toy]" "kind toy_field = EmbeddedK"
    by (simp_all add: vehicle_field_def toy_field_def example_cfg_def)
  have g: "get_embed_type payload [Car, Toy] = claimed_choice payload [Car, Toy]" for payload
    using embed_type_resolution [of "[Car, Toy]" payload Car vehicle_field example_ext]
      example_models
    by blast
  have g1: "get_embed_type [(PStr ''brand'', PStr ''X'')] [Car, Toy] = Inr Car"
    unfolding g by (simp add: claimed_choice_def example_selected)
  have g2: "get_embed_type [(PStr ''plate'', PStr ''X'')] [Car, Toy] = Inr Car"
    unfolding g by (simp add: claimed_choice_def example_selected)
  have g3: "get_embed_type [(PStr ''registration'', PStr ''X'')] [Car, Toy]
       = Inl (AmbiguousTypeError [Car, Toy])"
    unfolding g by (simp add: claimed_choice_def example_selected)
  have g4: "get_embed_type [(PStr ''name'', PStr ''X'')] [Car, Toy] = Inr Toy"
    unfolding g by (simp add: claimed_choice_def example_selected)
  have g5: "get_embed_type [] [Car, Toy] = Inl (AmbiguousTypeError [Car, Toy])"
    unfolding g by (simp add: claimed_choice_def example_selected)
  have p1: "parse_value example_ext vehicle_field (PDict [(PStr ''brand'', PStr ''X'')])
       = construct example_ext Car [(PStr ''brand'', PStr ''X'')]"
    using embed_type_resolution [of "[Car, Toy]" "[(PStr ''brand'', PStr ''X'')]" Car
        vehicle_field example_ext] example_models k g1
    by simp
  have p2: "parse_value example_ext toy_field (PDict [(PStr ''plate'', PStr ''X'')])
       = construct example_ext Toy [(PStr ''plate'', PStr ''X'')]"
    using embed_type_resolution [of "[Car, Toy]" "[(PStr ''plate'', PStr ''X'')]" Toy
        toy_field example_ext] example_models k
    by simp
  from example_models g1 g2 g3 g4 g5 p1 p2 show ?thesis by simp
qed

text \<open>
  The claim as stated counts the entries of the candidate list. A type listed twice is
  two selected candidates there, an ambiguity; the code keys its name sets by type, finds
  one match and returns it.
\<close>

theorem embed_type_duplicate_counterexample:
  "length [Car, Car] > 1
   \<and> get_embed_type [] [Car, Car] = Inr Car
   \<and> claimed_choice [] [Car, Car] = Inl (AmbiguousTypeError [Car, Car])"
proof -
  have "model_fields [Car, Car] = [(Car, wire_names Car)]"
    by (simp add: model_fields_def example_names)
  then have "matching_models [] [Car, Car] = [Car]"
    by (simp add: matching_models_def issuperset_def)
  then have "get_embed_type [] [Car, Car] = Inr Car"
    by (simp add: get_embed_type_def)
  moreover have "claimed_choice [] [Car, Car] = Inl (AmbiguousTypeError [Car, Car])"
    by (simp add: claimed_choice_def example_selected)
  ultimately show ?thesis by simp
qed

subsection \<open>Reading a field\<close>



















subsection \<open>The serialization round trip\<close>





lemma instance_of_TDate:
  "instance_of v TDate \<Longrightarrow> (\<exists>d. v = PDate d) \<or> (\<exists>d t. v = PDateTime d t)"
  by (cases v) (auto simp: instance_of_def split: pytype.splits)


lemma accepted_one:
  "types (cfg f) = Some [t] \<Longrightarrow> accepted f v \<Longrightarrow> instance_of v t"
  by (simp add: accepted_def split: if_splits)

lemma py_eq_not_number: "\<not> is_number a \<Longrightarrow> py_eq a b \<longleftrightarrow> a = b"
  by (simp add: py_eq_def)







lemma round_trip_unfold:
  "to_struct x f v = Inr s \<Longrightarrow> parse_value x f s = Inr r \<Longrightarrow> round_trip x f v = py_eq r v"
  "to_struct x f v = Inr s \<Longrightarrow> parse_value x f s = Inl e \<Longrightarrow> \<not> round_trip x f v"
  by (simp_all add: round_trip_def)





lemma not_time_instances:
  "\<not> instance_of (PStr s) TTime" "\<not> instance_of (PStr s) TDate"
  "\<not> instance_of (PStr s) TDateTime"
  by (simp_all add: instance_of_def)



text \<open>
  Whatever the date parser returns, a date field turns a datetime into a plain date, and
  a date never equals a datetime.
\<close>

lemma date_field_to_struct:
  assumes "f = Field c (DateK None)" "has_time_methods v"
  shows "to_struct x f v = Inr (PStr (strftime x v ''%Y-%m-%d''))"
  using assms
  by (simp add: DateField_to_struct_def format_given_def value_strftime_def default_format_def)

lemma date_field_parse:
  assumes "f = Field c (DateK None)"
  shows "du_parse x (PStr s) = Inl e \<Longrightarrow> parse_value x f (PStr s) = Inl e"
    and "du_parse x (PStr s) = Inr (d, t) \<Longrightarrow> parse_value x f (PStr s) = Inr (PDate d)"
  using assms by (simp_all add: DateField_parse_value_def not_time_instances)

lemma round_trip_date:
  assumes "kind f = DateK None" "types (cfg f) = Some [TDate]" "accepted f v"
  shows "round_trip x f v \<longleftrightarrow>
    (\<exists>d t. du_parse x (PStr (strftime x v ''%Y-%m-%d'')) = Inr (d, t) \<and> PDate d = v)"
proof -
  obtain c where f: "f = Field c (DateK None)" using assms(1) by (cases f) simp
  have tm: "has_time_methods v"
    using instance_of_TDate [OF accepted_one [OF assms(2,3)]]
    by (auto simp: has_time_methods_def)
  have nn: "\<not> is_number (PDate d)" for d by (simp add: is_number_def)
  let ?s = "PStr (strftime x v ''%Y-%m-%d'')"
  have ts: "to_struct x f v = Inr ?s" using f tm by (rule date_field_to_struct)
  show ?thesis
  proof (cases "du_parse x ?s")
    case (Inl e)
    then have "parse_value x f ?s = Inl e" by (rule date_field_parse(1) [OF f])
    with ts have "\<not> round_trip x f v" by (rule round_trip_unfold(2))
    with Inl show ?thesis by simp
  next
    case (Inr dt)
    obtain d t where dt: "dt = (d, t)" by (cases dt)
    have "parse_value x f ?s = Inr (PDate d)"
      using Inr unfolding dt by (rule date_field_parse(2) [OF f])
    with ts have "round_trip x f v = py_eq (PDate d) v" by (rule round_trip_unfold(1))
    then show ?thesis using Inr by (simp add: dt py_eq_not_number nn)
  qed
qed

lemma date_field_loses_datetime:
  assumes "kind f = DateK None" "types (cfg f) = Some [TDate]"
  shows "accepted f (PDateTime d t) \<and> \<not> round_trip x f (PDateTime d t)"
proof -
  have a: "accepted f (PDateTime d t)"
    using assms(2) by (simp add: accepted_def is_class_def instance_of_def)
  from round_trip_date [OF assms a, of x] a show ?thesis by simp
qed







end
